theory Spec2Isabelle
  imports Complex_Main
begin

section \<open>JavaScript numbers\<close>

text \<open>
  The trader module (\<^verbatim>\<open>convex/trader.ts\<close>) computes with JavaScript numbers, the
  IEEE 754 double-precision values. A finite double is modelled by the real number it
  denotes, next to the two infinities and \<open>NaN\<close>. Addition, multiplication and division
  compute the exact real result and round it to the nearest double, a tie going to the
  double with the even significand, and a result beyond the largest double to an
  infinity, as IEEE 754 prescribes for these operations; negation and absolute value are
  exact. The sign of zero is outside this model: the module divides only by array lengths
  and by absolute values, and never prints or compares a zero by its sign.
\<close>

datatype number = Fin real | PInf | NInf | NaN

text \<open>Rounding a real to the nearest integer, a tie going to the even one.\<close>

definition round_half_even :: "real \<Rightarrow> int" where
  "round_half_even y =
     (if y - of_int \<lfloor>y\<rfloor> < 1 / 2 then \<lfloor>y\<rfloor>
      else if 1 / 2 < y - of_int \<lfloor>y\<rfloor> then \<lfloor>y\<rfloor> + 1
      else if even \<lfloor>y\<rfloor> then \<lfloor>y\<rfloor> else \<lfloor>y\<rfloor> + 1)"

text \<open>
  The exponent of the spacing of the doubles around a non-zero real \<open>x\<close>: with
  \<open>2\<^sup>e \<le> |x| < 2\<^sup>e\<^sup>+\<^sup>1\<close> the doubles there are the multiples of \<open>2\<^sup>e\<^sup>-\<^sup>5\<^sup>2\<close>, and below the
  normal range (\<open>e < -1022\<close>) they are the multiples of \<open>2\<^sup>-\<^sup>1\<^sup>0\<^sup>7\<^sup>4\<close>.
\<close>

definition quantum_exponent :: "real \<Rightarrow> int" where
  "quantum_exponent x = max (\<lfloor>log 2 \<bar>x\<bar>\<rfloor> - 52) (- 1074)"

text \<open>
  Rounding an exact result to a double (round to nearest, ties to even). A result that
  rounds to \<open>2\<^sup>1\<^sup>0\<^sup>2\<^sup>4\<close> or beyond in absolute value overflows to the infinity of its sign.
\<close>

definition round_double :: "real \<Rightarrow> number" where
  "round_double x =
     (if x = 0 then Fin 0
      else
        let q = 2 powi quantum_exponent x;
            r = of_int (round_half_even (x / q)) * q
        in if 2 ^ 1024 \<le> \<bar>r\<bar> then (if 0 < x then PInf else NInf) else Fin r)"

text \<open>
  The reals that are doubles: an integer significand below \<open>2\<^sup>5\<^sup>3\<close> in absolute value
  times a power of two between \<open>2\<^sup>-\<^sup>1\<^sup>0\<^sup>7\<^sup>4\<close> and \<open>2\<^sup>9\<^sup>7\<^sup>1\<close>.
\<close>

definition is_double :: "real \<Rightarrow> bool" where
  "is_double x \<longleftrightarrow>
     (\<exists>m k. x = of_int m * 2 powi k \<and> \<bar>m\<bar> < 2 ^ 53 \<and> - 1074 \<le> k \<and> k \<le> 971)"

fun num_neg :: "number \<Rightarrow> number" where
  "num_neg (Fin a) = Fin (- a)"
| "num_neg PInf = NInf"
| "num_neg NInf = PInf"
| "num_neg NaN = NaN"

fun num_add :: "number \<Rightarrow> number \<Rightarrow> number" where
  "num_add (Fin a) (Fin b) = round_double (a + b)"
| "num_add NaN _ = NaN"
| "num_add _ NaN = NaN"
| "num_add PInf NInf = NaN"
| "num_add NInf PInf = NaN"
| "num_add PInf _ = PInf"
| "num_add _ PInf = PInf"
| "num_add NInf _ = NInf"
| "num_add _ NInf = NInf"

definition num_sub :: "number \<Rightarrow> number \<Rightarrow> number" where
  "num_sub a b = num_add a (num_neg b)"

text \<open>The sign of a number that is not \<open>NaN\<close>: \<open>True\<close> when it is below zero.\<close>

fun num_negative :: "number \<Rightarrow> bool" where
  "num_negative (Fin a) = (a < 0)"
| "num_negative NInf = True"
| "num_negative _ = False"

fun num_mul :: "number \<Rightarrow> number \<Rightarrow> number" where
  "num_mul (Fin a) (Fin b) = round_double (a * b)"
| "num_mul NaN _ = NaN"
| "num_mul _ NaN = NaN"
| "num_mul x y =
     (if x = Fin 0 \<or> y = Fin 0 then NaN
      else if num_negative x = num_negative y then PInf else NInf)"

text \<open>
  Division. Every divisor of the module is an array length or a \<^verbatim>\<open>Math.abs\<close>, so a
  zero divisor is the positive zero and a non-zero number over it takes the sign of the
  numerator.
\<close>

fun num_div :: "number \<Rightarrow> number \<Rightarrow> number" where
  "num_div (Fin a) (Fin b) =
     (if b = 0 then (if a = 0 then NaN else if 0 < a then PInf else NInf)
      else round_double (a / b))"
| "num_div NaN _ = NaN"
| "num_div _ NaN = NaN"
| "num_div (Fin a) _ = Fin 0"
| "num_div x (Fin b) = (if num_negative x = (b < 0) then PInf else NInf)"
| "num_div _ _ = NaN"

fun num_abs :: "number \<Rightarrow> number" where
  "num_abs (Fin a) = Fin \<bar>a\<bar>"
| "num_abs PInf = PInf"
| "num_abs NInf = PInf"
| "num_abs NaN = NaN"

text \<open>Comparisons: every comparison with \<open>NaN\<close> is false.\<close>

fun num_lt :: "number \<Rightarrow> number \<Rightarrow> bool" where
  "num_lt (Fin a) (Fin b) = (a < b)"
| "num_lt NaN _ = False"
| "num_lt _ NaN = False"
| "num_lt PInf _ = False"
| "num_lt _ NInf = False"
| "num_lt _ _ = True"

definition num_gt :: "number \<Rightarrow> number \<Rightarrow> bool" where
  "num_gt a b = num_lt b a"

fun num_le :: "number \<Rightarrow> number \<Rightarrow> bool" where
  "num_le (Fin a) (Fin b) = (a \<le> b)"
| "num_le NaN _ = False"
| "num_le _ NaN = False"
| "num_le NInf _ = True"
| "num_le _ PInf = True"
| "num_le _ _ = False"

text \<open>Truthiness of a number (\<^verbatim>\<open>if (x)\<close>): false for zero and \<open>NaN\<close>.\<close>

fun num_truthy :: "number \<Rightarrow> bool" where
  "num_truthy (Fin a) = (a \<noteq> 0)"
| "num_truthy NaN = False"
| "num_truthy _ = True"

text \<open>\<^verbatim>\<open>Number.EPSILON\<close> is \<open>2\<^sup>-\<^sup>5\<^sup>2\<close>.\<close>

definition EPSILON :: number where
  "EPSILON = Fin (1 / 2 ^ 52)"

text \<open>
  A value that may be \<^verbatim>\<open>undefined\<close> is an option. Arithmetic on \<^verbatim>\<open>undefined\<close> converts
  it to \<open>NaN\<close>.
\<close>

definition toNumber :: "number option \<Rightarrow> number" where
  "toNumber v = (case v of None \<Rightarrow> NaN | Some x \<Rightarrow> x)"

section \<open>Signals and the signal calculator\<close>

datatype direction = Long | Short

text \<open>
  A trading signal is \<^verbatim>\<open>'long' | 'short' | 'neutral'\<close>; a direction is a signal that is
  not neutral.
\<close>

datatype signal = Sig direction | Neutral

text \<open>
  \<^verbatim>\<open>Array.prototype.slice(start)\<close> for an integer \<open>start\<close>: a negative start counts from
  the end, a start past the end gives the empty array.
\<close>

definition slice_from :: "'a list \<Rightarrow> int \<Rightarrow> 'a list" where
  "slice_from xs start =
     (if start < 0 then drop (nat (max (int (length xs) + start) 0)) xs
      else drop (nat start) xs)"

text \<open>\<^verbatim>\<open>xs[xs.length - 1]\<close>: \<^verbatim>\<open>undefined\<close> on the empty array.\<close>

definition last_elem :: "'a list \<Rightarrow> 'a option" where
  "last_elem xs = (if xs = [] then None else Some (last xs))"

text \<open>
  \<^verbatim>\<open>movingAverage(series, length)\<close>. The window lengths of a session are numbers in
  the source; the model takes them as integers.
\<close>

definition movingAverage :: "number list \<Rightarrow> int \<Rightarrow> number option" where
  "movingAverage series len =
     (if int (length series) < len then last_elem series
      else
        let window = slice_from series (int (length series) - len);
            sum = foldl (\<lambda>acc v. num_add acc v) (Fin 0) window
        in Some (num_div sum (Fin (real (length window)))))"

definition computeSignal :: "number \<Rightarrow> number \<Rightarrow> number \<Rightarrow> signal" where
  "computeSignal shortMA longMA neutralThreshold =
     (let diff = num_sub shortMA longMA in
      if num_lt (num_abs longMA) EPSILON then
        (if num_gt diff (Fin 0) then Sig Long
         else if num_lt diff (Fin 0) then Sig Short else Neutral)
      else
        let ratio = num_div (num_abs diff) (num_abs longMA) in
        if num_lt ratio neutralThreshold then Neutral
        else if num_gt diff (Fin 0) then Sig Long else Sig Short)"

section \<open>Session configuration\<close>

datatype exn = Error (message: string)

record SessionConfig =
  name :: string
  instrument :: string
  granularity :: string
  shortWindow :: int
  longWindow :: int
  tradeUnits :: number
  takeProfitMultiplier :: number
  stopLossMultiplier :: number
  neutralThreshold :: number

definition validateConfig :: "'a SessionConfig_scheme \<Rightarrow> exn + unit" where
  "validateConfig config =
     (if longWindow config \<le> shortWindow config then
        Inl (Error ''Long window must be greater than short window.'')
      else if num_le (tradeUnits config) (Fin 0) then
        Inl (Error ''Trade units must be greater than zero.'')
      else if num_le (takeProfitMultiplier config) (Fin 0)
              \<or> num_le (stopLossMultiplier config) (Fin 0) then
        Inl (Error ''Take profit and stop loss multipliers must be positive numbers.'')
      else if num_lt (neutralThreshold config) (Fin 0) then
        Inl (Error ''Neutral threshold must be zero or positive.'')
      else Inr ())"

section \<open>The store\<close>

text \<open>
  Document identifiers are opaque strings in Convex; the model numbers the documents and
  renders an identifier in a message as its decimal numeral. A timestamp is the
  millisecond count \<^verbatim>\<open>Date.now()\<close> returns.
\<close>

type_synonym doc_id = nat
type_synonym time = nat

fun show_nat :: "nat \<Rightarrow> string" where
  "show_nat n =
     (if n < 10 then [''0123456789'' ! n]
      else show_nat (n div 10) @ [''0123456789'' ! (n mod 10)])"

declare show_nat.simps [simp del]

definition show_int :: "int \<Rightarrow> string" where
  "show_int i = (if i < 0 then ''-'' @ show_nat (nat (- i)) else show_nat (nat i))"

text \<open>
  Modelled from the spec: the table definitions of \<^verbatim>\<open>convex/schema.ts\<close> (\<^verbatim>\<open>TraderSessions\<close>,
  \<^verbatim>\<open>TraderPositions\<close>, \<^verbatim>\<open>TraderLogs\<close>) are not among the sources. The three records
  below have the fields the spec's data model lists, under the names and with the
  optionality that \<^verbatim>\<open>convex/trader.ts\<close> reads, inserts and patches them with.
\<close>

datatype session_status = StatusStopped | StatusRunning | StatusError

record TraderSession = SessionConfig +
  session_id :: doc_id
  status :: session_status
  lastSignal :: "signal option"
  lastShortMA :: "number option"
  lastLongMA :: "number option"
  lastPrice :: "number option"
  lastEvaluationTime :: "time option"
  errorMessage :: "string option"
  createdAt :: time
  updatedAt :: time

datatype position_status = PositionOpen | PositionClosed

record TraderPosition =
  position_id :: doc_id
  pos_sessionId :: doc_id
  direction :: direction
  units :: number
  entryPrice :: number
  takeProfitPrice :: "number option"
  stopLossPrice :: "number option"
  pos_status :: position_status
  oandaTradeId :: "string option"
  exitPrice :: "number option"
  realizedPnl :: "number option"
  closeReason :: "string option"
  openedAt :: time
  closedAt :: "time option"

datatype log_level = Info | Warn | ErrorLevel | Trade | Analysis

text \<open>The values the engine puts into the \<^verbatim>\<open>details\<close> payload of a log entry.\<close>

datatype detail =
  DNumber "number option" | DString "string option" | DSignal signal | DDirection direction
  | DId doc_id

record TraderLog =
  log_sessionId :: doc_id
  level :: log_level
  log_message :: string
  details :: "(string \<times> detail) list option"
  log_createdAt :: time

text \<open>A job handed to the scheduler with \<^verbatim>\<open>ctx.scheduler.runAfter(0, ...)\<close>.\<close>

datatype job =
  EvaluateSessionJob doc_id "string option"
  | CloseSessionPositionsJob doc_id "string option"

section \<open>The broker client (\<^verbatim>\<open>convex/lib/oanda.ts\<close>)\<close>

record OandaCandle =
  complete :: bool
  candle_time :: string
  mid_o :: string
  mid_h :: string
  mid_l :: string
  mid_c :: string

record TradeRef =
  tradeID :: string
  ref_units :: string

record OandaOrderFill =
  fill_price :: "string option"
  fullPrice_price :: "string option"
  pl :: "string option"
  tradeOpened :: "TradeRef option"
  tradesOpened :: "TradeRef list option"
  tradeReduced :: "TradeRef option"
  tradesClosed :: "TradeRef list option"

record OandaTrade =
  trade_id :: "string option"
  trade_tradeID :: "string option"
  trade_instrument :: string
  trade_price :: string
  currentUnits :: string

text \<open>
  The body of a response, as the client reads it: the fields of the JSON object that
  some caller looks at, each of them possibly absent.
\<close>

record ResponseBody =
  candles :: "OandaCandle list option"
  trades :: "OandaTrade list option"
  orderFillTransaction :: "OandaOrderFill option"
  orderFillTransactions :: "OandaOrderFill list option"

text \<open>
  \<open>body_json\<close> is what \<^verbatim>\<open>response.json()\<close> does: it throws an error with the given
  message, or returns the parsed body.
\<close>

record HttpResponse =
  ok :: bool
  http_status :: nat
  statusText :: string
  body_text :: string
  body_json :: "string + ResponseBody"

datatype fetch_result = Rejected string | Resolved HttpResponse

record OrderBody =
  order_instrument :: string
  order_units :: number
  takeProfitOnFill :: "number option"
  stopLossOnFill :: "number option"

text \<open>
  A request, by endpoint: the path and body the client builds, with the numbers of an
  order kept as numbers.
\<close>

datatype request =
  GetCandles string string string int
  | PostOrder string OrderBody
  | PutTradeClose string string
  | GetOpenTrades string

text \<open>A network call: the bearer token and the request.\<close>

type_synonym call = "string \<times> request"

text \<open>Errors the JavaScript runtime and the Convex runtime raise by themselves.\<close>

datatype platform_error =
  ReadOfUndefined string | ArgumentValidation string | NonexistentDocument doc_id

text \<open>
  The environment of one engine operation: the process environment variables, the
  network (what \<^verbatim>\<open>fetch\<close> answers to a call, given the calls made before), the clock,
  and the runtime's own functions on numbers (parsing and printing a double) and its
  error messages.
\<close>

record env =
  OANDA_API_KEY :: "string option"
  OANDA_ACCOUNT_ID :: "string option"
  fetch :: "call list \<Rightarrow> call \<Rightarrow> fetch_result"
  now :: time
  parseFloat :: "string \<Rightarrow> number"
  numberToString :: "number \<Rightarrow> string"
  platformMessage :: "platform_error \<Rightarrow> string"

text \<open>
  The state the engine works on: the three tables, the scheduler's queue, the counter
  the next document identifier comes from, and the trace of network calls made.
\<close>

record world =
  traderSessions :: "TraderSession list"
  traderPositions :: "TraderPosition list"
  traderLogs :: "TraderLog list"
  scheduled :: "job list"
  nextId :: doc_id
  netCalls :: "call list"

text \<open>An operation returns a value or throws, and leaves a world behind.\<close>

type_synonym 'a result = "(exn + 'a) \<times> world"

text \<open>Truthiness of an optional string: \<^verbatim>\<open>undefined\<close> and the empty string are false.\<close>

definition truthy :: "string option \<Rightarrow> bool" where
  "truthy v = (case v of None \<Rightarrow> False | Some s \<Rightarrow> s \<noteq> [])"

definition requireApiKey :: "env \<Rightarrow> exn + string" where
  "requireApiKey e =
     (if \<not> truthy (OANDA_API_KEY e) then
        Inl (Error ''Missing OANDA_API_KEY environment variable. Set it to your OANDA REST API token to enable live trading.'')
      else Inr (the (OANDA_API_KEY e)))"

definition requireAccountId :: "env \<Rightarrow> exn + string" where
  "requireAccountId e =
     (if \<not> truthy (OANDA_ACCOUNT_ID e) then
        Inl (Error ''Missing OANDA_ACCOUNT_ID environment variable. Set it to the practice or live account you wish to trade.'')
      else Inr (the (OANDA_ACCOUNT_ID e)))"

definition isOandaConfigured :: "env \<Rightarrow> bool" where
  "isOandaConfigured e = (truthy (OANDA_API_KEY e) \<and> truthy (OANDA_ACCOUNT_ID e))"

text \<open>
  \<^verbatim>\<open>oandaFetch\<close>: \<open>None\<close> is the \<^verbatim>\<open>undefined\<close> returned for status 204. The call is
  recorded in the trace when \<^verbatim>\<open>fetch\<close> is invoked.
\<close>

definition oandaFetch :: "env \<Rightarrow> request \<Rightarrow> world \<Rightarrow> ResponseBody option result" where
  "oandaFetch e req w =
     (case requireApiKey e of
        Inl err \<Rightarrow> (Inl err, w)
      | Inr apiKey \<Rightarrow>
          let c = (apiKey, req);
              w1 = w\<lparr>netCalls := netCalls w @ [c]\<rparr>
          in (case fetch e (netCalls w) c of
                Rejected m \<Rightarrow> (Inl (Error m), w1)
              | Resolved response \<Rightarrow>
                  (if \<not> ok response then
                     (Inl (Error (''OANDA request failed ('' @ show_nat (http_status response)
                        @ '' '' @ statusText response @ ''): '' @ body_text response)), w1)
                   else if http_status response = 204 then (Inr None, w1)
                   else (case body_json response of
                           Inl m \<Rightarrow> (Inl (Error m), w1)
                         | Inr b \<Rightarrow> (Inr (Some b), w1)))))"

definition fetchCandles :: "env \<Rightarrow> string \<Rightarrow> string \<Rightarrow> int \<Rightarrow> world \<Rightarrow> OandaCandle list result" where
  "fetchCandles e instr gran count w =
     (case oandaFetch e (GetCandles instr ''M'' gran (min 5000 (max 1 count))) w of
        (Inl err, w1) \<Rightarrow> (Inl err, w1)
      | (Inr None, w1) \<Rightarrow> (Inl (Error (platformMessage e (ReadOfUndefined ''candles''))), w1)
      | (Inr (Some b), w1) \<Rightarrow> (Inr (case candles b of None \<Rightarrow> [] | Some cs \<Rightarrow> cs), w1))"

definition placeMarketOrder ::
  "env \<Rightarrow> string \<Rightarrow> number \<Rightarrow> number \<Rightarrow> number \<Rightarrow> world \<Rightarrow> ResponseBody option result" where
  "placeMarketOrder e instr us tp sl w =
     (case requireAccountId e of
        Inl err \<Rightarrow> (Inl err, w)
      | Inr accountId \<Rightarrow>
          oandaFetch e
            (PostOrder accountId
               \<lparr>order_instrument = instr, order_units = us,
                takeProfitOnFill = (if num_truthy tp then Some tp else None),
                stopLossOnFill = (if num_truthy sl then Some sl else None)\<rparr>) w)"

definition closeTrade :: "env \<Rightarrow> string \<Rightarrow> world \<Rightarrow> ResponseBody option result" where
  "closeTrade e tradeId w =
     (case requireAccountId e of
        Inl err \<Rightarrow> (Inl err, w)
      | Inr accountId \<Rightarrow> oandaFetch e (PutTradeClose accountId tradeId) w)"

definition getOpenTrades :: "env \<Rightarrow> world \<Rightarrow> OandaTrade list result" where
  "getOpenTrades e w =
     (case requireAccountId e of
        Inl err \<Rightarrow> (Inl err, w)
      | Inr accountId \<Rightarrow>
          (case oandaFetch e (GetOpenTrades accountId) w of
             (Inl err, w1) \<Rightarrow> (Inl err, w1)
           | (Inr None, w1) \<Rightarrow> (Inl (Error (platformMessage e (ReadOfUndefined ''trades''))), w1)
           | (Inr (Some b), w1) \<Rightarrow> (Inr (case trades b of None \<Rightarrow> [] | Some ts \<Rightarrow> ts), w1)))"

section \<open>Reading and writing the store\<close>

text \<open>
  \<^verbatim>\<open>ctx.db.get\<close>, \<^verbatim>\<open>ctx.db.patch\<close> and \<^verbatim>\<open>ctx.db.insert\<close>. Patching a missing document
  throws in Convex; the engine patches only documents it has read or that a position
  refers to, except in \<^verbatim>\<open>updateSession\<close>, which is modelled with the exception. The
  operations run one at a time.
\<close>

definition db_get_session :: "world \<Rightarrow> doc_id \<Rightarrow> TraderSession option" where
  "db_get_session w sid = find (\<lambda>s. session_id s = sid) (traderSessions w)"

definition db_patch_session :: "doc_id \<Rightarrow> (TraderSession \<Rightarrow> TraderSession) \<Rightarrow> world \<Rightarrow> world" where
  "db_patch_session sid f w =
     w\<lparr>traderSessions := map (\<lambda>s. if session_id s = sid then f s else s) (traderSessions w)\<rparr>"

definition db_get_position :: "world \<Rightarrow> doc_id \<Rightarrow> TraderPosition option" where
  "db_get_position w pid = find (\<lambda>p. position_id p = pid) (traderPositions w)"

definition db_patch_position :: "doc_id \<Rightarrow> (TraderPosition \<Rightarrow> TraderPosition) \<Rightarrow> world \<Rightarrow> world" where
  "db_patch_position pid f w =
     w\<lparr>traderPositions := map (\<lambda>p. if position_id p = pid then f p else p) (traderPositions w)\<rparr>"

definition db_insert_position :: "TraderPosition \<Rightarrow> world \<Rightarrow> world" where
  "db_insert_position p w =
     w\<lparr>traderPositions := traderPositions w @ [p\<lparr>position_id := nextId w\<rparr>],
       nextId := Suc (nextId w)\<rparr>"

definition db_insert_log :: "TraderLog \<Rightarrow> world \<Rightarrow> world" where
  "db_insert_log l w = w\<lparr>traderLogs := traderLogs w @ [l]\<rparr>"

definition schedule :: "job \<Rightarrow> world \<Rightarrow> world" where
  "schedule j w = w\<lparr>scheduled := scheduled w @ [j]\<rparr>"

definition openPositionsOf :: "world \<Rightarrow> doc_id \<Rightarrow> TraderPosition list" where
  "openPositionsOf w sid =
     filter (\<lambda>p. pos_sessionId p = sid \<and> pos_status p = PositionOpen) (traderPositions w)"

definition getSessionState :: "world \<Rightarrow> doc_id \<Rightarrow> (TraderSession \<times> TraderPosition list) option" where
  "getSessionState w sid =
     (case db_get_session w sid of
        None \<Rightarrow> None
      | Some session \<Rightarrow> Some (session, openPositionsOf w sid))"

definition getActiveSessionIds :: "world \<Rightarrow> doc_id list" where
  "getActiveSessionIds w =
     map session_id (filter (\<lambda>s. status s = StatusRunning) (traderSessions w))"

definition logEvent ::
  "env \<Rightarrow> doc_id \<Rightarrow> log_level \<Rightarrow> string \<Rightarrow> (string \<times> detail) list option \<Rightarrow> world \<Rightarrow> world" where
  "logEvent e sid lvl msg det w =
     db_insert_log
       \<lparr>log_sessionId = sid, level = lvl, log_message = msg, details = det,
        log_createdAt = now e\<rparr> w"

text \<open>An argument that is \<^verbatim>\<open>undefined\<close> leaves its field out of the patch.\<close>

definition updateAnalytics ::
  "env \<Rightarrow> doc_id \<Rightarrow> number option \<Rightarrow> number option \<Rightarrow> number option \<Rightarrow> signal option
     \<Rightarrow> time option \<Rightarrow> string option \<Rightarrow> world \<Rightarrow> world" where
  "updateAnalytics e sid aShortMA aLongMA aPrice aSignal aTime aError w =
     db_patch_session sid
       (\<lambda>s. let p0 = s\<lparr>updatedAt := now e\<rparr>;
                p1 = (case aShortMA of None \<Rightarrow> p0 | Some v \<Rightarrow> p0\<lparr>lastShortMA := Some v\<rparr>);
                p2 = (case aLongMA of None \<Rightarrow> p1 | Some v \<Rightarrow> p1\<lparr>lastLongMA := Some v\<rparr>);
                p3 = (case aPrice of None \<Rightarrow> p2 | Some v \<Rightarrow> p2\<lparr>lastPrice := Some v\<rparr>);
                p4 = (case aSignal of None \<Rightarrow> p3 | Some v \<Rightarrow> p3\<lparr>lastSignal := Some v\<rparr>);
                p5 = (case aTime of None \<Rightarrow> p4 | Some v \<Rightarrow> p4\<lparr>lastEvaluationTime := Some v\<rparr>)
            in (case aError of None \<Rightarrow> p5 | Some v \<Rightarrow> p5\<lparr>errorMessage := Some v\<rparr>)) w"

definition setStatus :: "env \<Rightarrow> doc_id \<Rightarrow> session_status \<Rightarrow> string option \<Rightarrow> world \<Rightarrow> world" where
  "setStatus e sid st aError w =
     db_patch_session sid
       (\<lambda>s. let p0 = s\<lparr>status := st, updatedAt := now e\<rparr>
            in (case aError of None \<Rightarrow> p0 | Some v \<Rightarrow> p0\<lparr>errorMessage := Some v\<rparr>)) w"

text \<open>
  \<^verbatim>\<open>createPositionRecord\<close>. Its argument validator wants \<^verbatim>\<open>entryPrice\<close> to be a number,
  so an \<^verbatim>\<open>undefined\<close> entry price is refused before anything is written.
\<close>

definition createPositionRecord ::
  "env \<Rightarrow> doc_id \<Rightarrow> direction \<Rightarrow> number \<Rightarrow> number option \<Rightarrow> number option \<Rightarrow> number option
     \<Rightarrow> string option \<Rightarrow> world \<Rightarrow> unit result" where
  "createPositionRecord e sid dir us aEntryPrice aTakeProfit aStopLoss aTradeId w =
     (case aEntryPrice of
        None \<Rightarrow> (Inl (Error (platformMessage e (ArgumentValidation ''entryPrice''))), w)
      | Some ep \<Rightarrow>
          (Inr (),
           db_patch_session sid (\<lambda>s. s\<lparr>updatedAt := now e\<rparr>)
             (db_insert_position
                \<lparr>position_id = 0, pos_sessionId = sid, direction = dir, units = us,
                 entryPrice = ep, takeProfitPrice = aTakeProfit, stopLossPrice = aStopLoss,
                 pos_status = PositionOpen, oandaTradeId = aTradeId, exitPrice = None,
                 realizedPnl = None, closeReason = None, openedAt = now e,
                 closedAt = None\<rparr> w)))"

definition closePositionRecord ::
  "env \<Rightarrow> doc_id \<Rightarrow> number option \<Rightarrow> number option \<Rightarrow> string \<Rightarrow> world \<Rightarrow> world" where
  "closePositionRecord e pid aExitPrice aRealizedPnl reason w =
     (case db_get_position w pid of
        None \<Rightarrow> w
      | Some position \<Rightarrow>
          db_patch_session (pos_sessionId position) (\<lambda>s. s\<lparr>updatedAt := now e\<rparr>)
            (db_patch_position pid
               (\<lambda>p. let p0 = p\<lparr>pos_status := PositionClosed, closedAt := Some (now e),
                               closeReason := Some reason\<rparr>;
                        p1 = (case aExitPrice of None \<Rightarrow> p0 | Some v \<Rightarrow> p0\<lparr>exitPrice := Some v\<rparr>)
                    in (case aRealizedPnl of None \<Rightarrow> p1 | Some v \<Rightarrow> p1\<lparr>realizedPnl := Some v\<rparr>))
               w))"

section \<open>The order executor\<close>

text \<open>Everything the module and the runtime throw is an \<^verbatim>\<open>Error\<close>, so the message is returned.\<close>

definition formatError :: "exn \<Rightarrow> string" where
  "formatError err = message err"

text \<open>
  \<^verbatim>\<open>response.orderFillTransaction ?? response.orderFillTransactions?.[0]\<close>, which the
  module writes out three times.
\<close>

definition firstFill :: "ResponseBody \<Rightarrow> OandaOrderFill option" where
  "firstFill response =
     (case orderFillTransaction response of
        Some f \<Rightarrow> Some f
      | None \<Rightarrow>
          (case orderFillTransactions response of
             Some (f # _) \<Rightarrow> Some f
           | _ \<Rightarrow> None))"

definition extractTradeId :: "ResponseBody \<Rightarrow> string option" where
  "extractTradeId response =
     (case firstFill response of
        None \<Rightarrow> None
      | Some fill \<Rightarrow>
          if (case tradeOpened fill of Some t \<Rightarrow> tradeID t \<noteq> [] | None \<Rightarrow> False) then
            Some (tradeID (the (tradeOpened fill)))
          else if (case tradesOpened fill of Some ts \<Rightarrow> ts \<noteq> [] | None \<Rightarrow> False) then
            Some (tradeID (hd (the (tradesOpened fill))))
          else if (case tradeReduced fill of Some t \<Rightarrow> tradeID t \<noteq> [] | None \<Rightarrow> False) then
            Some (tradeID (the (tradeReduced fill)))
          else if (case tradesClosed fill of Some ts \<Rightarrow> ts \<noteq> [] | None \<Rightarrow> False) then
            Some (tradeID (hd (the (tradesClosed fill))))
          else None)"

text \<open>
  The price of a fill: \<^verbatim>\<open>fill.price\<close> when present, else \<^verbatim>\<open>fill.fullPrice.price\<close> when
  present, else the price the caller started from.
\<close>

definition fillPriceOr :: "env \<Rightarrow> OandaOrderFill option \<Rightarrow> number option \<Rightarrow> number option" where
  "fillPriceOr e fill marketPrice =
     (case fill of
        None \<Rightarrow> marketPrice
      | Some f \<Rightarrow>
          if truthy (fill_price f) then Some (parseFloat e (the (fill_price f)))
          else if truthy (fullPrice_price f) then Some (parseFloat e (the (fullPrice_price f)))
          else marketPrice)"

text \<open>
  The first lines of \<^verbatim>\<open>openPositionWithBroker\<close>: the signed unit size and the two
  target prices. The market price is a number by its type; the evaluator passes the last
  closing price, which is \<^verbatim>\<open>undefined\<close> on an empty series.
\<close>

definition openUnits :: "TraderSession \<Rightarrow> direction \<Rightarrow> number" where
  "openUnits session dir =
     num_mul (num_abs (tradeUnits session)) (Fin (if dir = Long then 1 else - 1))"

definition openTakeProfit :: "TraderSession \<Rightarrow> direction \<Rightarrow> number option \<Rightarrow> number" where
  "openTakeProfit session dir marketPrice =
     (if dir = Long then
        num_mul (toNumber marketPrice) (num_add (Fin 1) (takeProfitMultiplier session))
      else num_mul (toNumber marketPrice) (num_sub (Fin 1) (takeProfitMultiplier session)))"

definition openStopLoss :: "TraderSession \<Rightarrow> direction \<Rightarrow> number option \<Rightarrow> number" where
  "openStopLoss session dir marketPrice =
     (if dir = Long then
        num_mul (toNumber marketPrice) (num_sub (Fin 1) (stopLossMultiplier session))
      else num_mul (toNumber marketPrice) (num_add (Fin 1) (stopLossMultiplier session)))"

definition upperCase :: "direction \<Rightarrow> string" where
  "upperCase dir = (if dir = Long then ''LONG'' else ''SHORT'')"

text \<open>The last lines of \<^verbatim>\<open>openPositionWithBroker\<close>: the position record and the log entry.\<close>

definition recordOpenedPosition ::
  "env \<Rightarrow> TraderSession \<Rightarrow> direction \<Rightarrow> number option \<Rightarrow> number option \<Rightarrow> string option \<Rightarrow> world
     \<Rightarrow> unit result" where
  "recordOpenedPosition e session dir marketPrice aEntryPrice tradeId w =
     (case createPositionRecord e (session_id session) dir (openUnits session dir) aEntryPrice
             (Some (openTakeProfit session dir marketPrice))
             (Some (openStopLoss session dir marketPrice)) tradeId w of
        (Inl err, w1) \<Rightarrow> (Inl err, w1)
      | (Inr u, w1) \<Rightarrow>
          (Inr (),
           logEvent e (session_id session) Trade
             (''Opened '' @ upperCase dir @ '' position ('' @
                numberToString e (openUnits session dir) @ '' units)'')
             (Some [(''tradeId'', DString tradeId), (''entryPrice'', DNumber aEntryPrice),
                    (''takeProfitPrice'', DNumber (Some (openTakeProfit session dir marketPrice))),
                    (''stopLossPrice'', DNumber (Some (openStopLoss session dir marketPrice)))])
             w1))"

definition openPositionWithBroker ::
  "env \<Rightarrow> TraderSession \<Rightarrow> direction \<Rightarrow> number option \<Rightarrow> world \<Rightarrow> unit result" where
  "openPositionWithBroker e session dir marketPrice w =
     (if isOandaConfigured e then
        (case placeMarketOrder e (instrument session) (openUnits session dir)
                (openTakeProfit session dir marketPrice) (openStopLoss session dir marketPrice) w of
           (Inl err, w1) \<Rightarrow> (Inl err, w1)
         | (Inr None, w1) \<Rightarrow>
             (Inl (Error (platformMessage e (ReadOfUndefined ''orderFillTransaction''))), w1)
         | (Inr (Some response), w1) \<Rightarrow>
             recordOpenedPosition e session dir marketPrice
               (fillPriceOr e (firstFill response) marketPrice) (extractTradeId response) w1)
      else recordOpenedPosition e session dir marketPrice marketPrice None w)"

text \<open>The last lines of \<^verbatim>\<open>closePositionWithBroker\<close>.\<close>

definition recordClosedPosition ::
  "env \<Rightarrow> TraderSession \<Rightarrow> TraderPosition \<Rightarrow> number option \<Rightarrow> number option \<Rightarrow> string \<Rightarrow> world
     \<Rightarrow> world" where
  "recordClosedPosition e session position aExitPrice aRealizedPnl reason w =
     logEvent e (session_id session) Trade
       (''Closed position '' @ show_nat (position_id position) @ '' ('' @ reason @ '')'')
       (Some [(''tradeId'', DString (oandaTradeId position)), (''exitPrice'', DNumber aExitPrice),
              (''realizedPnl'', DNumber aRealizedPnl)])
       (closePositionRecord e (position_id position) aExitPrice aRealizedPnl reason w)"

definition closePositionWithBroker ::
  "env \<Rightarrow> TraderSession \<Rightarrow> TraderPosition \<Rightarrow> number option \<Rightarrow> string \<Rightarrow> world \<Rightarrow> unit result" where
  "closePositionWithBroker e session position marketPrice reason w =
     (if truthy (oandaTradeId position) \<and> isOandaConfigured e then
        (case closeTrade e (the (oandaTradeId position)) w of
           (Inl err, w1) \<Rightarrow> (Inl err, w1)
         | (Inr None, w1) \<Rightarrow>
             (Inl (Error (platformMessage e (ReadOfUndefined ''orderFillTransaction''))), w1)
         | (Inr (Some response), w1) \<Rightarrow>
             (Inr (),
              recordClosedPosition e session position
                (fillPriceOr e (firstFill response) marketPrice)
                (case firstFill response of
                   None \<Rightarrow> None
                 | Some f \<Rightarrow> if truthy (pl f) then Some (parseFloat e (the (pl f))) else None)
                reason w1))
      else (Inr (), recordClosedPosition e session position marketPrice None reason w))"

section \<open>The session evaluator\<close>

text \<open>
  \<^verbatim>\<open>getSessionState(...).then((s) => s?.openPositions ?? [])\<close>: the open positions of the
  session as the store has them now.
\<close>

definition refreshOpenPositions :: "world \<Rightarrow> doc_id \<Rightarrow> TraderPosition list" where
  "refreshOpenPositions w sid =
     (case getSessionState w sid of None \<Rightarrow> [] | Some st \<Rightarrow> snd st)"

text \<open>The identifier a broker trade goes by: \<^verbatim>\<open>trade.id ?? trade.tradeID ?? ''\<close>.\<close>

definition liveId :: "OandaTrade \<Rightarrow> string" where
  "liveId trade =
     (case trade_id trade of
        Some i \<Rightarrow> i
      | None \<Rightarrow> (case trade_tradeID trade of Some i \<Rightarrow> i | None \<Rightarrow> []))"

text \<open>The loop of the reconciliation step over the local open positions.\<close>

fun reconcilePositions ::
  "env \<Rightarrow> TraderSession \<Rightarrow> number option \<Rightarrow> string set \<Rightarrow> TraderPosition list \<Rightarrow> world \<Rightarrow> world" where
  "reconcilePositions e session latestPrice liveIds [] w = w"
| "reconcilePositions e session latestPrice liveIds (position # rest) w =
     (if truthy (oandaTradeId position) \<and> the (oandaTradeId position) \<notin> liveIds then
        reconcilePositions e session latestPrice liveIds rest
          (logEvent e (session_id session) Trade ''Detected broker-closed position''
             (Some [(''positionId'', DId (position_id position)),
                    (''tradeId'', DString (oandaTradeId position))])
             (closePositionRecord e (position_id position) latestPrice None ''broker-closed'' w))
      else reconcilePositions e session latestPrice liveIds rest w)"

text \<open>
  The reconciliation step of a tick: it returns the local view of the open positions
  and the world. A failure of the broker query is caught here and logged.
\<close>

definition evaluateSession_reconcile ::
  "env \<Rightarrow> TraderSession \<Rightarrow> number option \<Rightarrow> TraderPosition list \<Rightarrow> world
     \<Rightarrow> TraderPosition list \<times> world" where
  "evaluateSession_reconcile e session latestPrice openPositions w =
     (if openPositions \<noteq> [] \<and> isOandaConfigured e then
        (case getOpenTrades e w of
           (Inl err, w1) \<Rightarrow>
             (openPositions,
              logEvent e (session_id session) Warn
                (''Failed to sync open trades: '' @ formatError err) None w1)
         | (Inr liveTrades, w1) \<Rightarrow>
             (let w2 = reconcilePositions e session latestPrice (set (map liveId liveTrades))
                         openPositions w1
              in (refreshOpenPositions w2 (session_id session), w2)))
      else (openPositions, w))"

text \<open>The closing step of a tick: it returns the local view after it.\<close>

definition evaluateSession_close ::
  "env \<Rightarrow> TraderSession \<Rightarrow> signal \<Rightarrow> number option \<Rightarrow> TraderPosition list \<Rightarrow> world
     \<Rightarrow> TraderPosition list result" where
  "evaluateSession_close e session sig latestPrice openPositions w =
     (case openPositions of
        [] \<Rightarrow> (Inr openPositions, w)
      | activePosition # _ \<Rightarrow>
          if sig = Neutral \<or> sig \<noteq> Sig (direction activePosition) then
            (case closePositionWithBroker e session activePosition latestPrice
                    (if sig = Neutral then ''neutral-signal'' else ''signal-flip'')
                    (logEvent e (session_id session) Info
                       ''Signal requires closing current position''
                       (Some [(''signal'', DSignal sig),
                              (''activeDirection'', DDirection (direction activePosition))]) w) of
               (Inl err, w1) \<Rightarrow> (Inl err, w1)
             | (Inr u, w1) \<Rightarrow> (Inr (refreshOpenPositions w1 (session_id session)), w1))
          else (Inr openPositions, w))"

text \<open>The opening step of a tick.\<close>

definition evaluateSession_open ::
  "env \<Rightarrow> TraderSession \<Rightarrow> signal \<Rightarrow> signal \<Rightarrow> number option \<Rightarrow> TraderPosition list \<Rightarrow> world
     \<Rightarrow> unit result" where
  "evaluateSession_open e session sig previousSignal latestPrice openPositions w =
     (if openPositions = [] \<and> sig \<noteq> Neutral \<and> sig \<noteq> previousSignal then
        (case sig of
           Neutral \<Rightarrow> (Inr (), w)
         | Sig dir \<Rightarrow>
             openPositionWithBroker e session dir latestPrice
               (logEvent e (session_id session) Info ''Attempting to open new position''
                  (Some [(''signal'', DSignal sig)]) w))
      else (Inr (), w))"

text \<open>
  What a tick has in hand when it reaches the opening step: the signal, the previous
  signal, the latest price and the local view of the open positions.
\<close>

type_synonym decision = "signal \<times> signal \<times> number option \<times> TraderPosition list"

text \<open>
  The body of the \<^verbatim>\<open>try\<close> block up to the opening step. \<open>Inr None\<close> is the early return
  of the insufficient-data guard.
\<close>

definition evaluateSession_prepare ::
  "env \<Rightarrow> TraderSession \<Rightarrow> TraderPosition list \<Rightarrow> string option \<Rightarrow> world
     \<Rightarrow> decision option result" where
  "evaluateSession_prepare e session stateOpenPositions reason w =
     (case fetchCandles e (instrument session) (granularity session)
             (max (longWindow session * 2) (longWindow session + 5)) w of
        (Inl err, w1) \<Rightarrow> (Inl err, w1)
      | (Inr cs, w1) \<Rightarrow>
          (let closes = map (\<lambda>c. parseFloat e (mid_c c)) (filter complete cs) in
           if int (length closes) < longWindow session then
             (Inr None,
              logEvent e (session_id session) Warn
                (''Not enough historical candles to evaluate strategy (have '' @
                   show_nat (length closes) @ '', need '' @ show_int (longWindow session) @ '')'')
                None w1)
           else
             (let shortMA = movingAverage closes (shortWindow session);
                  longMA = movingAverage closes (longWindow session);
                  latestPrice = last_elem closes;
                  previousSignal = (case lastSignal session of None \<Rightarrow> Neutral | Some s \<Rightarrow> s);
                  sig = computeSignal (toNumber shortMA) (toNumber longMA)
                          (neutralThreshold session);
                  w2 = updateAnalytics e (session_id session) shortMA longMA latestPrice
                         (Some sig) (Some (now e)) None w1;
                  w3 = logEvent e (session_id session) Analysis ''Tick processed''
                         (Some [(''shortMA'', DNumber shortMA), (''longMA'', DNumber longMA),
                                (''latestPrice'', DNumber latestPrice), (''signal'', DSignal sig),
                                (''previousSignal'', DSignal previousSignal),
                                (''reason'', DString (Some (case reason of None \<Rightarrow> ''scheduled''
                                                                | Some r \<Rightarrow> r)))]) w2;
                  rec = evaluateSession_reconcile e session latestPrice stateOpenPositions w3
              in (case evaluateSession_close e session sig latestPrice (fst rec) (snd rec) of
                    (Inl err, w5) \<Rightarrow> (Inl err, w5)
                  | (Inr openPositions, w5) \<Rightarrow>
                      (Inr (Some (sig, previousSignal, latestPrice, openPositions)), w5)))))"

text \<open>The whole \<^verbatim>\<open>try\<close> block.\<close>

definition evaluateSession_try ::
  "env \<Rightarrow> TraderSession \<Rightarrow> TraderPosition list \<Rightarrow> string option \<Rightarrow> world \<Rightarrow> unit result" where
  "evaluateSession_try e session stateOpenPositions reason w =
     (case evaluateSession_prepare e session stateOpenPositions reason w of
        (Inl err, w1) \<Rightarrow> (Inl err, w1)
      | (Inr None, w1) \<Rightarrow> (Inr (), w1)
      | (Inr (Some (sig, previousSignal, latestPrice, openPositions)), w1) \<Rightarrow>
          evaluateSession_open e session sig previousSignal latestPrice openPositions w1)"

definition evaluateSession :: "env \<Rightarrow> doc_id \<Rightarrow> string option \<Rightarrow> world \<Rightarrow> unit result" where
  "evaluateSession e sid reason w =
     (case getSessionState w sid of
        None \<Rightarrow> (Inr (), w)
      | Some (session, stateOpenPositions) \<Rightarrow>
          if status session \<noteq> StatusRunning then (Inr (), w)
          else
            (case evaluateSession_try e session stateOpenPositions reason w of
               (Inr u, w1) \<Rightarrow> (Inr (), w1)
             | (Inl err, w1) \<Rightarrow>
                 (Inr (),
                  setStatus e (session_id session) StatusError (Some (formatError err))
                    (logEvent e (session_id session) ErrorLevel
                       (''Evaluation failed: '' @ formatError err) None w1))))"

section \<open>The public mutations and the scheduled actions\<close>

definition requireSession :: "TraderSession option \<Rightarrow> doc_id \<Rightarrow> exn + TraderSession" where
  "requireSession session sid =
     (case session of
        None \<Rightarrow> Inl (Error (''Trader session '' @ show_nat sid @ '' not found''))
      | Some s \<Rightarrow> Inr s)"

definition createSession :: "env \<Rightarrow> SessionConfig \<Rightarrow> world \<Rightarrow> doc_id result" where
  "createSession e args w =
     (case validateConfig args of
        Inl err \<Rightarrow> (Inl err, w)
      | Inr u \<Rightarrow>
          (Inr (nextId w),
           db_insert_log
             \<lparr>log_sessionId = nextId w, level = Info,
              log_message = ''Created trading session for '' @ instrument args @ '' ('' @
                              granularity args @ '')'',
              details = None, log_createdAt = now e\<rparr>
             (w\<lparr>traderSessions := traderSessions w @
                   [\<lparr>name = name args, instrument = instrument args,
                     granularity = granularity args, shortWindow = shortWindow args,
                     longWindow = longWindow args, tradeUnits = tradeUnits args,
                     takeProfitMultiplier = takeProfitMultiplier args,
                     stopLossMultiplier = stopLossMultiplier args,
                     neutralThreshold = neutralThreshold args,
                     session_id = nextId w, status = StatusStopped, lastSignal = Some Neutral,
                     lastShortMA = None, lastLongMA = None, lastPrice = None,
                     lastEvaluationTime = None, errorMessage = None, createdAt = now e,
                     updatedAt = now e\<rparr>],
                 nextId := Suc (nextId w)\<rparr>)))"

definition updateSession :: "env \<Rightarrow> doc_id \<Rightarrow> SessionConfig \<Rightarrow> world \<Rightarrow> unit result" where
  "updateSession e sid config w =
     (case validateConfig config of
        Inl err \<Rightarrow> (Inl err, w)
      | Inr u \<Rightarrow>
          (case db_get_session w sid of
             None \<Rightarrow> (Inl (Error (platformMessage e (NonexistentDocument sid))), w)
           | Some s0 \<Rightarrow>
               (Inr (),
                db_insert_log
                  \<lparr>log_sessionId = sid, level = Info,
                   log_message = ''Updated configuration for '' @ instrument config,
                   details = None, log_createdAt = now e\<rparr>
                  (db_patch_session sid
                     (\<lambda>s. s\<lparr>name := name config, instrument := instrument config,
                             granularity := granularity config,
                             shortWindow := shortWindow config, longWindow := longWindow config,
                             tradeUnits := tradeUnits config,
                             takeProfitMultiplier := takeProfitMultiplier config,
                             stopLossMultiplier := stopLossMultiplier config,
                             neutralThreshold := neutralThreshold config,
                             updatedAt := now e\<rparr>) w))))"

text \<open>A patch with \<^verbatim>\<open>errorMessage: undefined\<close> removes the field from the document.\<close>

definition startSession :: "env \<Rightarrow> doc_id \<Rightarrow> world \<Rightarrow> unit result" where
  "startSession e sid w =
     (case requireSession (db_get_session w sid) sid of
        Inl err \<Rightarrow> (Inl err, w)
      | Inr session \<Rightarrow>
          if status session = StatusRunning then (Inr (), w)
          else
            (Inr (),
             schedule (EvaluateSessionJob sid (Some ''manual-start''))
               (db_insert_log
                  \<lparr>log_sessionId = sid, level = Info, log_message = ''Trading session started'',
                   details = None, log_createdAt = now e\<rparr>
                  (db_patch_session sid
                     (\<lambda>s. s\<lparr>status := StatusRunning, updatedAt := now e,
                             errorMessage := None\<rparr>) w))))"

definition stopSession :: "env \<Rightarrow> doc_id \<Rightarrow> bool option \<Rightarrow> world \<Rightarrow> unit result" where
  "stopSession e sid closePositions w =
     (case requireSession (db_get_session w sid) sid of
        Inl err \<Rightarrow> (Inl err, w)
      | Inr session \<Rightarrow>
          (let w1 = db_insert_log
                      \<lparr>log_sessionId = sid, level = Info,
                       log_message = ''Trading session stopped'', details = None,
                       log_createdAt = now e\<rparr>
                      (db_patch_session sid
                         (\<lambda>s. s\<lparr>status := StatusStopped, updatedAt := now e,
                                 errorMessage := None\<rparr>) w)
           in if (case closePositions of None \<Rightarrow> True | Some b \<Rightarrow> b) then
                (Inr (),
                 schedule (CloseSessionPositionsJob (session_id session) (Some ''manual-stop'')) w1)
              else (Inr (), w1)))"

definition requestImmediateTick :: "env \<Rightarrow> doc_id \<Rightarrow> world \<Rightarrow> unit result" where
  "requestImmediateTick e sid w =
     (case requireSession (db_get_session w sid) sid of
        Inl err \<Rightarrow> (Inl err, w)
      | Inr session \<Rightarrow>
          (Inr (),
           schedule (EvaluateSessionJob sid (Some ''manual-tick''))
             (db_insert_log
                \<lparr>log_sessionId = sid, level = Info, log_message = ''Manual tick requested'',
                 details = None, log_createdAt = now e\<rparr> w)))"

text \<open>The loop of \<^verbatim>\<open>closeSessionPositions\<close>; an exception ends it.\<close>

fun closePositions_loop ::
  "env \<Rightarrow> TraderSession \<Rightarrow> string option \<Rightarrow> TraderPosition list \<Rightarrow> world \<Rightarrow> unit result" where
  "closePositions_loop e session reason [] w = (Inr (), w)"
| "closePositions_loop e session reason (position # rest) w =
     (case closePositionWithBroker e session position
             (Some (case lastPrice session of None \<Rightarrow> entryPrice position | Some v \<Rightarrow> v))
             (case reason of None \<Rightarrow> ''manual'' | Some r \<Rightarrow> r) w of
        (Inl err, w1) \<Rightarrow> (Inl err, w1)
      | (Inr u, w1) \<Rightarrow> closePositions_loop e session reason rest w1)"

definition closeSessionPositions :: "env \<Rightarrow> doc_id \<Rightarrow> string option \<Rightarrow> world \<Rightarrow> unit result" where
  "closeSessionPositions e sid reason w =
     (case getSessionState w sid of
        None \<Rightarrow> (Inr (), w)
      | Some (session, openPositions) \<Rightarrow> closePositions_loop e session reason openPositions w)"

text \<open>The loop of \<^verbatim>\<open>tickActiveSessions\<close>.\<close>

fun tickSessions_loop :: "env \<Rightarrow> doc_id list \<Rightarrow> world \<Rightarrow> unit result" where
  "tickSessions_loop e [] w = (Inr (), w)"
| "tickSessions_loop e (sid # rest) w =
     (case evaluateSession e sid None w of
        (Inl err, w1) \<Rightarrow> (Inl err, w1)
      | (Inr u, w1) \<Rightarrow> tickSessions_loop e rest w1)"

definition tickActiveSessions :: "env \<Rightarrow> world \<Rightarrow> unit result" where
  "tickActiveSessions e w = tickSessions_loop e (getActiveSessionIds w) w"

text \<open>The entry points of the engine, and what running one does to the world.\<close>

datatype operation =
  CreateSession SessionConfig
  | UpdateSession doc_id SessionConfig
  | StartSession doc_id
  | StopSession doc_id "bool option"
  | RequestImmediateTick doc_id
  | EvaluateSession doc_id "string option"
  | CloseSessionPositions doc_id "string option"
  | TickActiveSessions

fun perform :: "env \<Rightarrow> operation \<Rightarrow> world \<Rightarrow> unit result" where
  "perform e (CreateSession args) w =
     (case createSession e args w of (Inl err, w1) \<Rightarrow> (Inl err, w1) | (Inr i, w1) \<Rightarrow> (Inr (), w1))"
| "perform e (UpdateSession sid config) w = updateSession e sid config w"
| "perform e (StartSession sid) w = startSession e sid w"
| "perform e (StopSession sid closePositions) w = stopSession e sid closePositions w"
| "perform e (RequestImmediateTick sid) w = requestImmediateTick e sid w"
| "perform e (EvaluateSession sid reason) w = evaluateSession e sid reason w"
| "perform e (CloseSessionPositions sid reason) w = closeSessionPositions e sid reason w"
| "perform e TickActiveSessions w = tickActiveSessions e w"

section \<open>Auxiliary notions\<close>

text \<open>Two worlds with the same tables: they differ at most in the trace of network calls.\<close>

definition same_tables :: "world \<Rightarrow> world \<Rightarrow> bool" where
  "same_tables w w1 \<longleftrightarrow>
     traderSessions w1 = traderSessions w \<and> traderPositions w1 = traderPositions w
     \<and> traderLogs w1 = traderLogs w \<and> scheduled w1 = scheduled w \<and> nextId w1 = nextId w"

text \<open>The record \<^verbatim>\<open>createPositionRecord\<close> inserts for an open of the order executor.\<close>

definition openedPosition ::
  "env \<Rightarrow> TraderSession \<Rightarrow> direction \<Rightarrow> number option \<Rightarrow> number \<Rightarrow> string option \<Rightarrow> doc_id
     \<Rightarrow> TraderPosition" where
  "openedPosition e session dir marketPrice ep tradeId pid =
     \<lparr>position_id = pid, pos_sessionId = session_id session, direction = dir,
      units = openUnits session dir, entryPrice = ep,
      takeProfitPrice = Some (openTakeProfit session dir marketPrice),
      stopLossPrice = Some (openStopLoss session dir marketPrice),
      pos_status = PositionOpen, oandaTradeId = tradeId, exitPrice = None,
      realizedPnl = None, closeReason = None, openedAt = now e, closedAt = None\<rparr>"

text \<open>
  The sessions of two worlds correspond one to one, with the same identifiers, and a
  session outside \<open>A\<close> has kept its status and its error message.
\<close>

definition sessions_kept :: "doc_id set \<Rightarrow> world \<Rightarrow> world \<Rightarrow> bool" where
  "sessions_kept A w w' \<longleftrightarrow>
     list_all2
       (\<lambda>s s'. session_id s' = session_id s
          \<and> (session_id s \<notin> A \<longrightarrow> status s' = status s \<and> errorMessage s' = errorMessage s))
       (traderSessions w) (traderSessions w')"

text \<open>What the reconciliation step writes into a position it finds closed at the broker.\<close>

definition brokerClosed :: "env \<Rightarrow> number option \<Rightarrow> TraderPosition \<Rightarrow> TraderPosition" where
  "brokerClosed e latestPrice p =
     p\<lparr>pos_status := PositionClosed, closedAt := Some (now e),
       closeReason := Some ''broker-closed'',
       exitPrice := (case latestPrice of None \<Rightarrow> exitPrice p | Some v \<Rightarrow> Some v)\<rparr>"

text \<open>A local position the broker no longer holds: it has a trade identifier that is not live.\<close>

definition stale :: "string set \<Rightarrow> TraderPosition \<Rightarrow> bool" where
  "stale liveIds p \<longleftrightarrow> truthy (oandaTradeId p) \<and> the (oandaTradeId p) \<notin> liveIds"

text \<open>The closing prices a tick computes with: those of the completed candles, parsed.\<close>

definition closesOf :: "env \<Rightarrow> OandaCandle list \<Rightarrow> number list" where
  "closesOf e cs = map (\<lambda>c. parseFloat e (mid_c c)) (filter complete cs)"

text \<open>The signal a tick computes for a session from the candles it fetched.\<close>

definition signalOf :: "env \<Rightarrow> TraderSession \<Rightarrow> OandaCandle list \<Rightarrow> signal" where
  "signalOf e session cs =
     computeSignal (toNumber (movingAverage (closesOf e cs) (shortWindow session)))
       (toNumber (movingAverage (closesOf e cs) (longWindow session)))
       (neutralThreshold session)"

text \<open>The session \<open>sid\<close> is in status error with the message \<open>m\<close> recorded.\<close>

definition in_error :: "world \<Rightarrow> doc_id \<Rightarrow> string \<Rightarrow> bool" where
  "in_error w sid m \<longleftrightarrow>
     (case db_get_session w sid of
        None \<Rightarrow> False
      | Some s \<Rightarrow> status s = StatusError \<and> errorMessage s = Some m)"



text \<open>
  The sessions of two worlds correspond one to one, with the same identifiers, and every
  session has kept its recorded signal.
\<close>

definition signals_kept :: "world \<Rightarrow> world \<Rightarrow> bool" where
  "signals_kept w w' \<longleftrightarrow>
     list_all2 (\<lambda>s s'. session_id s' = session_id s \<and> lastSignal s' = lastSignal s)
       (traderSessions w) (traderSessions w')"

section \<open>Example data\<close>

text \<open>
  A session, a world and an environment on which the properties below are run. The
  multipliers of the session are the doubles nearest to 0.01 and to 0.005.
\<close>

definition example_session :: TraderSession where
  "example_session =
     \<lparr>name = ''demo'', instrument = ''EUR_USD'', granularity = ''M5'', shortWindow = 1,
      longWindow = 2, tradeUnits = Fin 100, takeProfitMultiplier = Fin (5764607523034235 / 2 ^ 59),
      stopLossMultiplier = Fin (5764607523034235 / 2 ^ 60), neutralThreshold = Fin 0,
      session_id = 0, status = StatusRunning, lastSignal = Some Neutral, lastShortMA = None,
      lastLongMA = None, lastPrice = None, lastEvaluationTime = None, errorMessage = None,
      createdAt = 0, updatedAt = 0\<rparr>"

definition example_world :: "TraderSession \<Rightarrow> TraderPosition list \<Rightarrow> world" where
  "example_world session positions =
     \<lparr>traderSessions = [session], traderPositions = positions, traderLogs = [],
      scheduled = [], nextId = 10, netCalls = []\<rparr>"

definition example_env :: "string option \<Rightarrow> (call list \<Rightarrow> call \<Rightarrow> fetch_result) \<Rightarrow> env" where
  "example_env accountId net =
     \<lparr>OANDA_API_KEY = Some ''token'', OANDA_ACCOUNT_ID = accountId, fetch = net, now = 1000,
      parseFloat = (\<lambda>s. if s = ''1'' then Fin 1 else if s = ''3'' then Fin 3 else NaN),
      numberToString = (\<lambda>n. ''?''), platformMessage = (\<lambda>p. ''runtime error'')\<rparr>"

definition example_candle :: "bool \<Rightarrow> string \<Rightarrow> OandaCandle" where
  "example_candle done c =
     \<lparr>complete = done, candle_time = ''t'', mid_o = c, mid_h = c, mid_l = c, mid_c = c\<rparr>"

definition example_body :: ResponseBody where
  "example_body =
     \<lparr>candles = None, trades = None, orderFillTransaction = None,
      orderFillTransactions = None\<rparr>"

definition example_fill :: OandaOrderFill where
  "example_fill =
     \<lparr>fill_price = Some ''3'', fullPrice_price = None, pl = None,
      tradeOpened = Some \<lparr>tradeID = ''T1'', ref_units = ''100''\<rparr>, tradesOpened = None,
      tradeReduced = None, tradesClosed = None\<rparr>"

definition example_ok :: "ResponseBody \<Rightarrow> fetch_result" where
  "example_ok b =
     Resolved \<lparr>ok = True, http_status = 200, statusText = ''OK'', body_text = [],
               body_json = Inr b\<rparr>"

definition example_refused :: fetch_result where
  "example_refused =
     Resolved \<lparr>ok = False, http_status = 400, statusText = ''Bad Request'',
               body_text = ''rejected'', body_json = Inl ''not json''\<rparr>"

text \<open>
  A network that serves the given candles, and answers an order, a trade close and the
  open-trades query as told.
\<close>

definition example_net ::
  "OandaCandle list \<Rightarrow> fetch_result \<Rightarrow> fetch_result \<Rightarrow> call list \<Rightarrow> call \<Rightarrow> fetch_result" where
  "example_net cs orderReply tradesReply history c =
     (case snd c of
        GetCandles i p g n \<Rightarrow> example_ok (example_body\<lparr>candles := Some cs\<rparr>)
      | PostOrder a b \<Rightarrow> orderReply
      | PutTradeClose a t \<Rightarrow> orderReply
      | GetOpenTrades a \<Rightarrow> tradesReply)"



definition example_position :: "doc_id \<Rightarrow> direction \<Rightarrow> string option \<Rightarrow> TraderPosition" where
  "example_position pid dir tid =
     \<lparr>position_id = pid, pos_sessionId = 0, direction = dir, units = Fin 100,
      entryPrice = Fin 2, takeProfitPrice = None, stopLossPrice = None,
      pos_status = PositionOpen, oandaTradeId = tid, exitPrice = None, realizedPnl = None,
      closeReason = None, openedAt = 500, closedAt = None\<rparr>"

definition example_trade :: "string \<Rightarrow> OandaTrade" where
  "example_trade i =
     \<lparr>trade_id = Some i, trade_tradeID = None, trade_instrument = ''EUR_USD'',
      trade_price = ''2'', currentUnits = ''100''\<rparr>"

text \<open>A broker that reports one open trade, \<^verbatim>\<open>T1\<close>.\<close>

definition example_syncing_env :: env where
  "example_syncing_env =
     example_env (Some ''acct'')
       (example_net [] example_refused
          (example_ok (example_body\<lparr>trades := Some [example_trade ''T1'']\<rparr>)))"

text \<open>Paper mode: candles closing at 1 and 3 are served, no account is configured.\<close>

definition example_paper_env :: env where
  "example_paper_env =
     example_env None
       (example_net [example_candle True ''1'', example_candle True ''3'']
          example_refused example_refused)"

text \<open>Paper mode with falling prices: candles closing at 3 and 1 are served.\<close>

definition example_falling_env :: env where
  "example_falling_env =
     example_env None
       (example_net [example_candle True ''3'', example_candle True ''1'']
          example_refused example_refused)"

text \<open>A session that an earlier tick has left in status error.\<close>

definition example_failed_session :: TraderSession where
  "example_failed_session =
     example_session\<lparr>status := StatusError, errorMessage := Some ''boom''\<rparr>"

section \<open>Unfolding rules for running the model on the example data\<close>

lemmas example_defs =
  example_session_def example_world_def example_env_def example_candle_def example_body_def
  example_fill_def example_ok_def example_refused_def example_net_def

lemmas broker_defs =
  truthy_def requireApiKey_def requireAccountId_def isOandaConfigured_def oandaFetch_def
  fetchCandles_def placeMarketOrder_def closeTrade_def getOpenTrades_def

lemmas store_defs =
  db_get_session_def db_patch_session_def db_get_position_def db_patch_position_def
  db_insert_position_def db_insert_log_def schedule_def openPositionsOf_def getSessionState_def
  logEvent_def updateAnalytics_def setStatus_def createPositionRecord_def
  closePositionRecord_def

lemmas executor_defs =
  formatError_def firstFill_def extractTradeId_def fillPriceOr_def openUnits_def
  openTakeProfit_def openStopLoss_def upperCase_def recordOpenedPosition_def
  openPositionWithBroker_def recordClosedPosition_def closePositionWithBroker_def
  toNumber_def num_sub_def num_gt_def

lemmas signal_defs =
  movingAverage_def slice_from_def last_elem_def computeSignal_def EPSILON_def

lemmas evaluator_defs =
  refreshOpenPositions_def liveId_def evaluateSession_reconcile_def evaluateSession_close_def
  evaluateSession_open_def evaluateSession_prepare_def evaluateSession_try_def
  evaluateSession_def

section \<open>Properties\<close>

subsection \<open>Rounding to a double\<close>

lemma round_half_even_int: "round_half_even (of_int j) = j"
  by (simp add: round_half_even_def)


lemma quantum_exponent_le:
  assumes "x = of_int m * 2 powi k" and "m \<noteq> 0" and "\<bar>m\<bar> < 2 ^ 53" and "- 1074 \<le> k"
  shows "quantum_exponent x \<le> k"
proof -
  have p: "(0::real) < 2 powi k" by (simp add: zero_less_power_int)
  have ax: "\<bar>x\<bar> = of_int \<bar>m\<bar> * 2 powi k"
    using assms(1) p by (simp add: abs_mult)
  have pos: "0 < \<bar>x\<bar>" using assms(1,2) p by simp
  have "real_of_int \<bar>m\<bar> < 2 ^ 53"
    using assms(3) by (metis of_int_less_numeral_power_cancel_iff)
  then have "\<bar>x\<bar> < 2 ^ 53 * 2 powi k"
    unfolding ax using p by (simp add: mult_strict_right_mono)
  also have "\<dots> = 2 powi (53 + k)"
    by (simp add: power_int_add)
  also have "\<dots> = 2 powr real_of_int (53 + k)"
    by (rule powr_real_of_int' [symmetric]) simp_all
  finally have "log 2 \<bar>x\<bar> < log 2 (2 powr real_of_int (53 + k))"
    using pos by (intro log_less) simp_all
  then have "log 2 \<bar>x\<bar> < real_of_int (52 + k) + 1"
    by (simp add: log_powr_cancel)
  then have "\<lfloor>log 2 \<bar>x\<bar>\<rfloor> \<le> 52 + k"
    by (simp only: floor_le_iff)
  with assms(4) show ?thesis by (simp add: quantum_exponent_def)
qed

lemma round_double_exact:
  assumes "is_double x"
  shows "round_double x = Fin x"
proof (cases "x = 0")
  case True
  then show ?thesis by (simp add: round_double_def)
next
  case False
  from assms obtain m k where mk: "x = of_int m * 2 powi k" "\<bar>m\<bar> < 2 ^ 53" "- 1074 \<le> k"
    "k \<le> 971"
    by (auto simp add: is_double_def)
  with False have m0: "m \<noteq> 0" by auto
  define E where "E = quantum_exponent x"
  have le: "E \<le> k"
    unfolding E_def using mk(1) m0 mk(2,3) by (rule quantum_exponent_le)
  define n where "n = nat (k - E)"
  have k: "k = int n + E" using le by (simp add: n_def)
  have "(2::real) powi k = 2 ^ n * 2 powi E"
    unfolding k by (simp add: power_int_add)
  with mk(1) have "x / 2 powi E = of_int (m * 2 ^ n)"
    by simp
  then have "of_int (round_half_even (x / 2 powi E)) * 2 powi E = x"
    by (simp only: round_half_even_int) (simp add: field_simps)
  then have r: "of_int (round_half_even (x / 2 powi quantum_exponent x))
                  * 2 powi quantum_exponent x = x"
    by (simp add: E_def)
  have "real_of_int \<bar>m\<bar> < 2 ^ 53"
    using mk(2) by (metis of_int_less_numeral_power_cancel_iff)
  moreover have "(2::real) powi k \<le> 2 powi 971"
    using mk(4) by (intro power_int_increasing) simp_all
  moreover have "(0::real) < 2 powi k" by (simp add: zero_less_power_int)
  ultimately have "of_int \<bar>m\<bar> * (2::real) powi k < 2 ^ 53 * 2 powi 971"
    by (intro mult_less_le_imp_less) simp_all
  also have "(2::real) ^ 53 * 2 powi 971 = 2 ^ 1024"
    by (simp add: power_int_def flip: power_add)
  finally have "\<bar>x\<bar> < 2 ^ 1024"
    using mk(1) by (simp add: abs_mult)
  with False r show ?thesis
    by (simp add: round_double_def Let_def)
qed


lemma is_double_int: "\<bar>n\<bar> < 2 ^ 53 \<Longrightarrow> is_double (of_int n)"
  unfolding is_double_def by (rule exI [of _ n], rule exI [of _ 0]) simp

lemma is_double_dyadic:
  assumes "\<bar>m\<bar> < 2 ^ 53" and "j \<le> 1074"
  shows "is_double (of_int m / 2 ^ j)"
  unfolding is_double_def
proof (intro exI conjI)
  show "real_of_int m / 2 ^ j = real_of_int m * 2 powi (- int j)"
    by (simp add: power_int_minus field_simps)
  show "\<bar>m\<bar> < 2 ^ 53" by fact
  show "- 1074 \<le> - int j" "- int j \<le> 971" using assms(2) by simp_all
qed

lemma round_double_numeral:
  "(numeral w :: int) < 2 ^ 53 \<Longrightarrow> round_double (numeral w) = Fin (numeral w)"
  using round_double_exact [OF is_double_int [of "numeral w"]] by simp

lemma round_double_neg_numeral:
  "(numeral w :: int) < 2 ^ 53 \<Longrightarrow> round_double (- numeral w) = Fin (- numeral w)"
  using round_double_exact [OF is_double_int [of "- numeral w"]] by simp

lemma round_double_0: "round_double 0 = Fin 0"
  by (simp add: round_double_def)

lemma round_double_1: "round_double 1 = Fin 1"
  using round_double_exact [OF is_double_int [of 1]] by simp

lemma round_double_neg_1: "round_double (- 1) = Fin (- 1)"
  using round_double_exact [OF is_double_int [of "- 1"]] by simp

lemma floor_log2_eq:
  assumes "2 powi e \<le> x" and "x < 2 powi (e + 1)"
  shows "\<lfloor>log 2 x\<rfloor> = e"
proof -
  have "(0::real) < 2 powi e" by simp
  with assms(1) have pos: "0 < x" by linarith
  have a: "(2::real) powi e = 2 powr real_of_int e"
    by (rule powr_real_of_int' [symmetric]) simp_all
  have b: "(2::real) powi (e + 1) = 2 powr real_of_int (e + 1)"
    by (rule powr_real_of_int' [symmetric]) simp_all
  have "log 2 (2 powr real_of_int e) \<le> log 2 x"
    using assms(1) pos unfolding a by (subst log_le_cancel_iff) simp_all
  then have 1: "real_of_int e \<le> log 2 x" by (simp add: log_powr_cancel)
  have "log 2 x < log 2 (2 powr real_of_int (e + 1))"
    using assms(2) pos unfolding b by (intro log_less) simp_all
  then have 2: "log 2 x < real_of_int e + 1" by (simp add: log_powr_cancel)
  from 1 2 show ?thesis by (simp add: floor_eq_iff)
qed

lemma round_double_in_binade:
  assumes "2 powi e \<le> \<bar>x\<bar>" and "\<bar>x\<bar> < 2 powi (e + 1)"
    and "q = 2 powi max (e - 52) (- 1074)"
    and "j = round_half_even (x / q)"
    and "\<bar>of_int j * q\<bar> < 2 ^ 1024"
  shows "round_double x = Fin (of_int j * q)"
proof -
  have "(0::real) < 2 powi e" by simp
  with assms(1) have "0 < \<bar>x\<bar>" by linarith
  then have "x \<noteq> 0" by simp
  moreover have "quantum_exponent x = max (e - 52) (- 1074)"
    using floor_log2_eq [OF assms(1,2)] by (simp add: quantum_exponent_def)
  ultimately show ?thesis
    using assms(3-5) by (simp add: round_double_def Let_def)
qed

lemma round_double_half: "round_double (1 / 2) = Fin (1 / 2)"
  using round_double_exact [OF is_double_dyadic [of 1 1]] by simp

lemma round_double_5_2: "round_double (5 / 2) = Fin (5 / 2)"
  using round_double_exact [OF is_double_dyadic [of 5 1]] by simp

lemma round_ratio_half_percent: "round_double (1 / 200) = Fin (5764607523034235 / 1152921504606846976)"
  by (rule round_double_in_binade [where e = "- 8" and q = "1 / 2 ^ 60" and j = 5764607523034235, THEN trans])
     (simp_all add: round_half_even_def power_int_minus)

lemma round_ratio_one_percent: "round_double (1 / 100) = Fin (5764607523034235 / 576460752303423488)"
  by (rule round_double_in_binade [where e = "- 7" and q = "1 / 2 ^ 59" and j = 5764607523034235, THEN trans])
     (simp_all add: round_half_even_def power_int_minus)

lemmas round_simps =
  round_double_0 round_double_1 round_double_neg_1 round_double_numeral round_double_neg_numeral
  round_double_half

subsection \<open>The signal calculator\<close>

lemma movingAverage_short_series:
  "series \<noteq> [] \<Longrightarrow> int (length series) < len \<Longrightarrow> movingAverage series len = Some (last series)"
  by (simp add: movingAverage_def last_elem_def)

lemma movingAverage_window:
  assumes "0 < len" and "len \<le> int (length series)"
  shows "movingAverage series len
         = Some (num_div
                   (foldl (\<lambda>acc v. num_add acc v) (Fin 0)
                      (drop (length series - nat len) series))
                   (Fin (real_of_int len)))"
proof -
  have w: "slice_from series (int (length series) - len) = drop (length series - nat len) series"
    using assms by (simp add: slice_from_def nat_diff_distrib')
  have l: "real (length (drop (length series - nat len) series)) = real_of_int len"
    using assms by simp
  show ?thesis
    using assms unfolding movingAverage_def Let_def w l by simp
qed

lemma num_le_not_lt: "num_le a b \<Longrightarrow> \<not> num_lt b a"
  by (cases a; cases b) simp_all

lemma computeSignal_zero_average:
  "num_lt (num_abs longMA) EPSILON \<Longrightarrow>
   computeSignal shortMA longMA t
   = (if num_gt (num_sub shortMA longMA) (Fin 0) then Sig Long
      else if num_lt (num_sub shortMA longMA) (Fin 0) then Sig Short else Neutral)"
  by (simp add: computeSignal_def Let_def)

lemma computeSignal_ratio:
  "\<not> num_lt (num_abs longMA) EPSILON \<Longrightarrow>
   computeSignal shortMA longMA t
   = (if num_lt (num_div (num_abs (num_sub shortMA longMA)) (num_abs longMA)) t then Neutral
      else if num_gt (num_sub shortMA longMA) (Fin 0) then Sig Long else Sig Short)"
  by (simp add: computeSignal_def Let_def)

lemma movingAverage_zero: "movingAverage series 0 = Some NaN"
  by (simp add: movingAverage_def slice_from_def)

lemma computeSignal_NaN:
  "computeSignal NaN longMA t = (if num_lt (num_abs longMA) EPSILON then Neutral else Sig Short)"
  by (cases longMA) (simp_all add: computeSignal_def num_sub_def num_gt_def Let_def EPSILON_def)

lemma num_gt_zero_not_le: "num_gt x (Fin 0) \<Longrightarrow> \<not> num_le x (Fin 0)"
  by (cases x) (simp_all add: num_gt_def)

lemma num_le_zero_not_lt: "num_le (Fin 0) x \<Longrightarrow> \<not> num_lt x (Fin 0)"
  by (cases x) simp_all

text \<open>
  C3. The arithmetic is that of the program, on doubles: \<open>num_sub\<close>, \<open>num_div\<close> and
  \<open>num_add\<close> round as the source's \<^verbatim>\<open>-\<close>, \<^verbatim>\<open>/\<close> and \<^verbatim>\<open>+\<close> do. A non-empty series shorter
  than the window averages to its most recent price. A window that fits gives the sum of
  the last \<open>n\<close> prices, added up from the oldest, divided by \<open>n\<close>. With the absolute value
  of the long average below \<^verbatim>\<open>Number.EPSILON\<close> the signal is the sign of the difference
  of the averages: long when it is above zero, short when below, neutral otherwise.
  Otherwise the signal is neutral exactly when the ratio of the absolute difference to
  the absolute long average is below the threshold, and when the ratio is at least the
  threshold a difference above zero gives long and any other difference gives short.
\<close>

theorem signal_calculator:
  "(series \<noteq> [] \<and> int (length series) < len
      \<longrightarrow> movingAverage series len = Some (last series))
   \<and> (0 < n \<and> n \<le> int (length prices)
      \<longrightarrow> movingAverage prices n
          = Some (num_div
                    (foldl (\<lambda>acc v. num_add acc v) (Fin 0)
                       (drop (length prices - nat n) prices))
                    (Fin (real_of_int n))))
   \<and> (num_lt (num_abs longMA) EPSILON
      \<longrightarrow> computeSignal shortMA longMA t
          = (if num_gt (num_sub shortMA longMA) (Fin 0) then Sig Long
             else if num_lt (num_sub shortMA longMA) (Fin 0) then Sig Short else Neutral))
   \<and> (\<not> num_lt (num_abs longMA) EPSILON
      \<longrightarrow> (computeSignal shortMA longMA t = Neutral
            \<longleftrightarrow> num_lt (num_div (num_abs (num_sub shortMA longMA)) (num_abs longMA)) t)
        \<and> (num_le t (num_div (num_abs (num_sub shortMA longMA)) (num_abs longMA))
            \<longrightarrow> computeSignal shortMA longMA t
                = (if num_gt (num_sub shortMA longMA) (Fin 0) then Sig Long else Sig Short)))"
  using movingAverage_short_series [of series len] movingAverage_window [of n prices]
    computeSignal_zero_average [of longMA shortMA t] computeSignal_ratio [of longMA shortMA t]
    num_le_not_lt [of t "num_div (num_abs (num_sub shortMA longMA)) (num_abs longMA)"]
  by auto

text \<open>
  The calculator run on doubles: the averages of \<open>[1, 2]\<close> over a window of
  3 and of \<open>[1, 2, 3]\<close> over a window of 2; a long average of 0; and, with the double
  nearest to 0.01 as threshold, the averages 100.5 and 101 against 100. In the last case
  the ratio rounds to the threshold itself, so the signal is long.
\<close>

theorem signal_calculator_witness:
  "movingAverage [Fin 1, Fin 2] 3 = Some (Fin 2)
   \<and> movingAverage [Fin 1, Fin 2, Fin 3] 2 = Some (Fin (5 / 2))
   \<and> computeSignal (Fin 5) (Fin 0) (Fin (5764607523034235 / 2 ^ 59)) = Sig Long
   \<and> computeSignal (Fin (201 / 2)) (Fin 100) (Fin (5764607523034235 / 2 ^ 59)) = Neutral
   \<and> computeSignal (Fin 101) (Fin 100) (Fin (5764607523034235 / 2 ^ 59)) = Sig Long"
proof -
  have a: "movingAverage [Fin 1, Fin 2] 3 = Some (Fin 2)"
    using signal_calculator [where series = "[Fin 1, Fin 2]" and len = 3] by simp
  have b: "movingAverage [Fin 1, Fin 2, Fin 3] 2 = Some (Fin (5 / 2))"
    using signal_calculator [where prices = "[Fin 1, Fin 2, Fin 3]" and n = 2]
    by (simp add: round_simps round_double_5_2)
  have c: "computeSignal (Fin 5) (Fin 0) (Fin (5764607523034235 / 2 ^ 59)) = Sig Long"
    using signal_calculator [where shortMA = "Fin 5" and longMA = "Fin 0"
        and t = "Fin (5764607523034235 / 2 ^ 59)"]
    by (simp add: EPSILON_def num_sub_def num_gt_def round_simps)
  have d: "computeSignal (Fin (201 / 2)) (Fin 100) (Fin (5764607523034235 / 2 ^ 59)) = Neutral"
    using signal_calculator [where shortMA = "Fin (201 / 2)" and longMA = "Fin 100"
        and t = "Fin (5764607523034235 / 2 ^ 59)"]
    by (simp add: EPSILON_def num_sub_def num_gt_def round_simps round_ratio_half_percent)
  have e: "computeSignal (Fin 101) (Fin 100) (Fin (5764607523034235 / 2 ^ 59)) = Sig Long"
    using signal_calculator [where shortMA = "Fin 101" and longMA = "Fin 100"
        and t = "Fin (5764607523034235 / 2 ^ 59)"]
    by (simp add: EPSILON_def num_sub_def num_gt_def round_simps round_ratio_one_percent)
  from a b c d e show ?thesis by simp
qed

text \<open>
  C10. Validation accepts a configuration whose short window is zero or negative as long
  as the long window is larger and the other fields pass; with a short window of zero the
  short moving average of any series is \<open>NaN\<close>, and the signal computed from it is neutral
  or short whatever the prices are.
\<close>

theorem nonpositive_short_window:
  "(shortWindow c \<le> 0 \<and> shortWindow c < longWindow c \<and> num_gt (tradeUnits c) (Fin 0)
      \<and> num_gt (takeProfitMultiplier c) (Fin 0) \<and> num_gt (stopLossMultiplier c) (Fin 0)
      \<and> num_le (Fin 0) (neutralThreshold c)
      \<longrightarrow> validateConfig c = Inr ())
   \<and> (shortWindow c = 0
      \<longrightarrow> movingAverage closes (shortWindow c) = Some NaN
        \<and> computeSignal (toNumber (movingAverage closes (shortWindow c))) longMA
              (neutralThreshold c)
            = (if num_lt (num_abs longMA) EPSILON then Neutral else Sig Short))"
  by (simp add: validateConfig_def num_gt_zero_not_le num_le_zero_not_lt movingAverage_zero
      computeSignal_NaN toNumber_def)

theorem nonpositive_short_window_witness:
  "validateConfig (example_session\<lparr>shortWindow := 0\<rparr>) = Inr ()
   \<and> movingAverage [Fin 1, Fin 3] 0 = Some NaN
   \<and> computeSignal (toNumber (movingAverage [Fin 1, Fin 3] 0)) (Fin 2) (Fin 0) = Sig Short"
  using nonpositive_short_window
    [where c = "example_session\<lparr>shortWindow := 0\<rparr>" and closes = "[Fin 1, Fin 3]"
       and longMA = "Fin 2"]
  by (auto simp add: example_session_def num_gt_def EPSILON_def)

text \<open>
  C5. A tick on a session that is not running returns without an error and leaves the
  world as it was: no session, position or log record is written and no network call is
  made.
\<close>

theorem tick_not_running_is_noop:
  "db_get_session w sid = Some session \<Longrightarrow> status session \<noteq> StatusRunning
   \<Longrightarrow> evaluateSession e sid reason w = (Inr (), w)"
  by (simp add: evaluateSession_def getSessionState_def)

theorem tick_not_running_is_noop_witness:
  "db_get_session (example_world (example_session\<lparr>status := StatusStopped\<rparr>) []) 0
     = Some (example_session\<lparr>status := StatusStopped\<rparr>)
   \<and> status (example_session\<lparr>status := StatusStopped\<rparr>) \<noteq> StatusRunning
   \<and> evaluateSession (example_env None (\<lambda>h c. Rejected ''offline'')) 0 None
        (example_world (example_session\<lparr>status := StatusStopped\<rparr>) [])
      = (Inr (), example_world (example_session\<lparr>status := StatusStopped\<rparr>) [])"
proof -
  have a: "db_get_session (example_world (example_session\<lparr>status := StatusStopped\<rparr>) []) 0
     = Some (example_session\<lparr>status := StatusStopped\<rparr>)"
    by (simp add: db_get_session_def example_world_def example_session_def)
  have b: "status (example_session\<lparr>status := StatusStopped\<rparr>) \<noteq> StatusRunning"
    by simp
  from a b tick_not_running_is_noop [OF a b] show ?thesis by simp
qed

lemma oandaFetch_snd: "same_tables w (snd (oandaFetch e req w))"
  unfolding oandaFetch_def Let_def same_tables_def
  by (simp split: sum.split fetch_result.split)

lemma oandaFetch_tables: "oandaFetch e req w = (r, w1) \<Longrightarrow> same_tables w w1"
  using oandaFetch_snd [of w e req] by simp

lemma fetchCandles_tables: "fetchCandles e i g c w = (r, w1) \<Longrightarrow> same_tables w w1"
  using oandaFetch_snd [of w e "GetCandles i ''M'' g (min 5000 (max 1 c))"]
  unfolding fetchCandles_def
  by (cases "oandaFetch e (GetCandles i ''M'' g (min 5000 (max 1 c))) w")
     (auto split: sum.splits option.splits)

lemma placeMarketOrder_tables: "placeMarketOrder e i us tp sl w = (r, w1) \<Longrightarrow> same_tables w w1"
  unfolding placeMarketOrder_def
  by (cases "requireAccountId e") (auto simp: same_tables_def dest: oandaFetch_tables)

lemma closeTrade_tables: "closeTrade e t w = (r, w1) \<Longrightarrow> same_tables w w1"
  unfolding closeTrade_def
  by (cases "requireAccountId e") (auto simp: same_tables_def dest: oandaFetch_tables)

lemma getOpenTrades_tables: "getOpenTrades e w = (r, w1) \<Longrightarrow> same_tables w w1"
proof (cases "requireAccountId e")
  case (Inl a)
  then show "getOpenTrades e w = (r, w1) \<Longrightarrow> same_tables w w1"
    by (auto simp: getOpenTrades_def same_tables_def)
next
  case (Inr a)
  assume g: "getOpenTrades e w = (r, w1)"
  obtain x w2 where o: "oandaFetch e (GetOpenTrades a) w = (x, w2)"
    by (cases "oandaFetch e (GetOpenTrades a) w")
  from g Inr o have "w1 = w2"
    by (auto simp: getOpenTrades_def split: sum.splits option.splits)
  with oandaFetch_tables [OF o] show "same_tables w w1" by simp
qed

text \<open>
  C4. When a tick on a running session obtains fewer completed closing prices than the
  long window, it returns without an error, appends exactly one log entry, of level
  warn, and writes nothing else: the session table (status and analytics included) and
  the position table are as before.
\<close>

theorem tick_insufficient_data:
  assumes "db_get_session w sid = Some session"
    and "status session = StatusRunning"
    and "fetchCandles e (instrument session) (granularity session)
           (max (longWindow session * 2) (longWindow session + 5)) w = (Inr cs, w1)"
    and "int (length (filter complete cs)) < longWindow session"
  shows "\<exists>l. fst (evaluateSession e sid reason w) = Inr ()
           \<and> traderLogs (snd (evaluateSession e sid reason w)) = traderLogs w @ [l]
           \<and> level l = Warn
           \<and> traderSessions (snd (evaluateSession e sid reason w)) = traderSessions w
           \<and> traderPositions (snd (evaluateSession e sid reason w)) = traderPositions w
           \<and> db_get_session (snd (evaluateSession e sid reason w)) sid = Some session"
proof -
  have f: "traderSessions w1 = traderSessions w" "traderPositions w1 = traderPositions w"
    "traderLogs w1 = traderLogs w"
    using fetchCandles_tables [OF assms(3)] by (simp_all add: same_tables_def)
  have p: "evaluateSession_prepare e session (openPositionsOf w sid) reason w
           = (Inr None,
              logEvent e (session_id session) Warn
                (''Not enough historical candles to evaluate strategy (have '' @
                   show_nat (length (filter complete cs)) @ '', need '' @
                   show_int (longWindow session) @ '')'')
                None w1)"
    using assms(3,4) by (simp add: evaluateSession_prepare_def Let_def)
  have ev: "evaluateSession e sid reason w
           = (Inr (),
              logEvent e (session_id session) Warn
                (''Not enough historical candles to evaluate strategy (have '' @
                   show_nat (length (filter complete cs)) @ '', need '' @
                   show_int (longWindow session) @ '')'')
                None w1)"
    using assms(1,2) p
    by (simp add: evaluateSession_def getSessionState_def evaluateSession_try_def)
  show ?thesis
    unfolding ev using f assms(1)
    by (simp add: logEvent_def db_insert_log_def db_get_session_def)
qed

theorem tick_insufficient_data_witness:
  "db_get_session (example_world example_session []) 0 = Some example_session
   \<and> status example_session = StatusRunning
   \<and> fetchCandles
        (example_env None
           (example_net [example_candle True ''1'', example_candle False ''3'']
              example_refused example_refused))
        (instrument example_session) (granularity example_session)
        (max (longWindow example_session * 2) (longWindow example_session + 5))
        (example_world example_session [])
      = (Inr [example_candle True ''1'', example_candle False ''3''],
         (example_world example_session [])
           \<lparr>netCalls := [(''token'', GetCandles ''EUR_USD'' ''M'' ''M5'' 7)]\<rparr>)
   \<and> int (length (filter complete [example_candle True ''1'', example_candle False ''3'']))
       < longWindow example_session
   \<and> (\<exists>l. fst (evaluateSession
                 (example_env None
                    (example_net [example_candle True ''1'', example_candle False ''3'']
                       example_refused example_refused))
                 0 None (example_world example_session [])) = Inr ()
          \<and> traderLogs (snd (evaluateSession
                 (example_env None
                    (example_net [example_candle True ''1'', example_candle False ''3'']
                       example_refused example_refused))
                 0 None (example_world example_session []))) = [l]
          \<and> level l = Warn
          \<and> traderSessions (snd (evaluateSession
                 (example_env None
                    (example_net [example_candle True ''1'', example_candle False ''3'']
                       example_refused example_refused))
                 0 None (example_world example_session []))) = [example_session])"
proof -
  have a: "db_get_session (example_world example_session []) 0 = Some example_session"
    by (simp add: example_defs store_defs)
  have b: "status example_session = StatusRunning"
    by (simp add: example_defs)
  have c: "fetchCandles
        (example_env None
           (example_net [example_candle True ''1'', example_candle False ''3'']
              example_refused example_refused))
        (instrument example_session) (granularity example_session)
        (max (longWindow example_session * 2) (longWindow example_session + 5))
        (example_world example_session [])
      = (Inr [example_candle True ''1'', example_candle False ''3''],
         (example_world example_session [])
           \<lparr>netCalls := [(''token'', GetCandles ''EUR_USD'' ''M'' ''M5'' 7)]\<rparr>)"
    by (simp add: example_defs broker_defs)
  have d: "int (length (filter complete [example_candle True ''1'', example_candle False ''3'']))
       < longWindow example_session"
    by (simp add: example_defs)
  from tick_insufficient_data [OF a b c d, of None] a b c d show ?thesis
    by (auto simp add: example_world_def)
qed

lemma logEvent_fields:
  "traderSessions (logEvent e sid lvl msg det w) = traderSessions w"
  "traderPositions (logEvent e sid lvl msg det w) = traderPositions w"
  "traderLogs (logEvent e sid lvl msg det w)
     = traderLogs w @ [\<lparr>log_sessionId = sid, level = lvl, log_message = msg, details = det,
                         log_createdAt = now e\<rparr>]"
  "scheduled (logEvent e sid lvl msg det w) = scheduled w"
  "nextId (logEvent e sid lvl msg det w) = nextId w"
  "netCalls (logEvent e sid lvl msg det w) = netCalls w"
  by (simp_all add: logEvent_def db_insert_log_def)

lemma db_patch_session_fields:
  "traderPositions (db_patch_session sid f w) = traderPositions w"
  "traderLogs (db_patch_session sid f w) = traderLogs w"
  "scheduled (db_patch_session sid f w) = scheduled w"
  "nextId (db_patch_session sid f w) = nextId w"
  "netCalls (db_patch_session sid f w) = netCalls w"
  by (simp_all add: db_patch_session_def)

lemma recordOpenedPosition_Some:
  "recordOpenedPosition e session dir mp (Some ep) tid w = (r, w') \<Longrightarrow>
   r = Inr ()
   \<and> traderPositions w' = traderPositions w @ [openedPosition e session dir mp ep tid (nextId w)]
   \<and> netCalls w' = netCalls w"
  by (auto simp add: recordOpenedPosition_def createPositionRecord_def logEvent_fields
      db_patch_session_fields db_insert_position_def openedPosition_def)

lemma recordOpenedPosition_None:
  "recordOpenedPosition e session dir mp None tid w
   = (Inl (Error (platformMessage e (ArgumentValidation ''entryPrice''))), w)"
  by (simp add: recordOpenedPosition_def createPositionRecord_def)

lemma recordOpenedPosition_Inr:
  "recordOpenedPosition e session dir mp aep tid w = (Inr u, w') \<Longrightarrow>
   \<exists>ep. aep = Some ep
     \<and> traderPositions w' = traderPositions w @ [openedPosition e session dir mp ep tid (nextId w)]
     \<and> netCalls w' = netCalls w"
  by (cases aep) (auto simp add: recordOpenedPosition_None dest: recordOpenedPosition_Some)

lemma recordOpenedPosition_Inl:
  "recordOpenedPosition e session dir mp aep tid w = (Inl err, w') \<Longrightarrow> w' = w"
  by (cases aep) (auto simp add: recordOpenedPosition_None dest: recordOpenedPosition_Some)

lemma openPositionWithBroker_paper:
  "\<not> isOandaConfigured e \<Longrightarrow>
   openPositionWithBroker e session dir mp w = recordOpenedPosition e session dir mp mp None w"
  by (simp add: openPositionWithBroker_def)

lemma openPositionWithBroker_Inr:
  assumes "openPositionWithBroker e session dir mp w = (Inr u, w')"
  shows "\<exists>ep tid. traderPositions w'
           = traderPositions w @ [openedPosition e session dir mp ep tid (nextId w)]"
proof (cases "isOandaConfigured e")
  case False
  with assms have "recordOpenedPosition e session dir mp mp None w = (Inr u, w')"
    by (simp add: openPositionWithBroker_paper)
  from recordOpenedPosition_Inr [OF this] show ?thesis by blast
next
  case True
  obtain x w1 where o: "placeMarketOrder e (instrument session) (openUnits session dir)
      (openTakeProfit session dir mp) (openStopLoss session dir mp) w = (x, w1)"
    by (cases "placeMarketOrder e (instrument session) (openUnits session dir)
      (openTakeProfit session dir mp) (openStopLoss session dir mp) w")
  from placeMarketOrder_tables [OF o]
  have t: "traderPositions w1 = traderPositions w" "nextId w1 = nextId w"
    by (simp_all add: same_tables_def)
  from assms True o obtain response where
    r: "recordOpenedPosition e session dir mp (fillPriceOr e (firstFill response) mp)
          (extractTradeId response) w1 = (Inr u, w')"
    by (auto simp add: openPositionWithBroker_def split: sum.splits option.splits)
  from recordOpenedPosition_Inr [OF r] t show ?thesis by auto
qed

lemma openPositionWithBroker_Inl:
  assumes "openPositionWithBroker e session dir mp w = (Inl err, w')"
  shows "same_tables w w'"
proof (cases "isOandaConfigured e")
  case False
  with assms have "recordOpenedPosition e session dir mp mp None w = (Inl err, w')"
    by (simp add: openPositionWithBroker_paper)
  from recordOpenedPosition_Inl [OF this] show ?thesis by (simp add: same_tables_def)
next
  case True
  obtain x w1 where o: "placeMarketOrder e (instrument session) (openUnits session dir)
      (openTakeProfit session dir mp) (openStopLoss session dir mp) w = (x, w1)"
    by (cases "placeMarketOrder e (instrument session) (openUnits session dir)
      (openTakeProfit session dir mp) (openStopLoss session dir mp) w")
  note t = placeMarketOrder_tables [OF o]
  from assms True o have "w' = w1 \<or> (\<exists>aep tid. recordOpenedPosition e session dir mp aep tid w1 = (Inl err, w'))"
    by (auto simp add: openPositionWithBroker_def split: sum.splits option.splits)
  with t show ?thesis by (auto dest: recordOpenedPosition_Inl)
qed

lemma is_double_abs: "is_double x \<Longrightarrow> is_double \<bar>x\<bar>"
proof -
  assume "is_double x"
  then obtain m k where "x = of_int m * 2 powi k" "\<bar>m\<bar> < 2 ^ 53" "- 1074 \<le> k" "k \<le> 971"
    by (auto simp add: is_double_def)
  then have "\<bar>x\<bar> = of_int \<bar>m\<bar> * 2 powi k \<and> \<bar>\<bar>m\<bar>\<bar> < 2 ^ 53 \<and> - 1074 \<le> k \<and> k \<le> 971"
    by (simp add: abs_mult)
  then show ?thesis unfolding is_double_def by blast
qed

lemma is_double_minus: "is_double x \<Longrightarrow> is_double (- x)"
proof -
  assume "is_double x"
  then obtain m k where "x = of_int m * 2 powi k" "\<bar>m\<bar> < 2 ^ 53" "- 1074 \<le> k" "k \<le> 971"
    by (auto simp add: is_double_def)
  then have "- x = of_int (- m) * 2 powi k \<and> \<bar>- m\<bar> < 2 ^ 53 \<and> - 1074 \<le> k \<and> k \<le> 971"
    by simp
  then show ?thesis unfolding is_double_def by blast
qed

lemma openUnits_double:
  assumes "tradeUnits session = Fin n" and "is_double n"
  shows "openUnits session dir = Fin (if dir = Long then \<bar>n\<bar> else - \<bar>n\<bar>)"
  using assms round_double_exact [OF is_double_abs [OF assms(2)]]
    round_double_exact [OF is_double_minus [OF is_double_abs [OF assms(2)]]]
  by (simp add: openUnits_def)

lemma round_one_plus_tp: "round_double (582225359826457723 / 576460752303423488) = Fin (4548635623644201 / 4503599627370496)"
  by (rule round_double_in_binade [where e = 0 and q = "1 / 2 ^ 52" and j = 4548635623644201, THEN trans])
     (simp_all add: round_half_even_def power_int_minus)

lemma round_tp_long: "round_double (13645906870932603 / 4503599627370496) = Fin (3411476717733151 / 1125899906842624)"
  by (rule round_double_in_binade [where e = 1 and q = "1 / 2 ^ 51" and j = 6822953435466302, THEN trans])
     (simp_all add: round_half_even_def power_int_minus)

lemma round_one_minus_sl: "round_double (1147156897083812741 / 1152921504606846976) = Fin (8962163258467287 / 9007199254740992)"
  by (rule round_double_in_binade [where e = "- 1" and q = "1 / 2 ^ 53" and j = 8962163258467287, THEN trans])
     (simp_all add: round_half_even_def power_int_minus)

lemma round_sl_long: "round_double (26886489775401861 / 9007199254740992) = Fin (6721622443850465 / 2251799813685248)"
  by (rule round_double_in_binade [where e = 1 and q = "1 / 2 ^ 51" and j = 6721622443850465, THEN trans])
     (simp_all add: round_half_even_def power_int_minus)

lemma round_one_minus_tp: "round_double (570696144780389253 / 576460752303423488) = Fin (4458563631096791 / 4503599627370496)"
  by (rule round_double_in_binade [where e = "- 1" and q = "1 / 2 ^ 53" and j = 8917127262193582, THEN trans])
     (simp_all add: round_half_even_def power_int_minus)

lemma round_tp_short: "round_double (13375690893290373 / 4503599627370496) = Fin (3343922723322593 / 1125899906842624)"
  by (rule round_double_in_binade [where e = 1 and q = "1 / 2 ^ 51" and j = 6687845446645186, THEN trans])
     (simp_all add: round_half_even_def power_int_minus)

lemma round_one_plus_sl: "round_double (1158686112129881211 / 1152921504606846976) = Fin (1131529406376837 / 1125899906842624)"
  by (rule round_double_in_binade [where e = 0 and q = "1 / 2 ^ 52" and j = 4526117625507348, THEN trans])
     (simp_all add: round_half_even_def power_int_minus)

lemma round_sl_short: "round_double (3394588219130511 / 1125899906842624) = Fin (3394588219130511 / 1125899906842624)"
  by (rule round_double_in_binade [where e = 1 and q = "1 / 2 ^ 51" and j = 6789176438261022, THEN trans])
     (simp_all add: round_half_even_def power_int_minus)

text \<open>
  C8. The arithmetic is that of the program, on doubles: \<open>num_mul\<close>, \<open>num_add\<close> and
  \<open>num_sub\<close> round as the source's \<^verbatim>\<open>*\<close>, \<^verbatim>\<open>+\<close> and \<^verbatim>\<open>-\<close> do. Every successful open at the
  market price \<open>p\<close> records a position whose take-profit is \<open>p * (1 + tp)\<close> and whose
  stop-loss is \<open>p * (1 - sl)\<close> when long, whose take-profit is \<open>p * (1 - tp)\<close> and whose
  stop-loss is \<open>p * (1 + sl)\<close> when short, and whose unit size is the absolute trade
  unit size times 1 when long and times -1 when short; for a trade unit size that is a
  double this is the absolute size itself, respectively its negation.
\<close>

theorem open_targets_and_units:
  assumes "openPositionWithBroker e session dir (Some p) w = (Inr u, w')"
  shows "\<exists>pos. traderPositions w' = traderPositions w @ [pos]
           \<and> direction pos = dir
           \<and> units pos
               = num_mul (num_abs (tradeUnits session)) (Fin (if dir = Long then 1 else - 1))
           \<and> (\<forall>n. tradeUnits session = Fin n \<and> is_double n
                 \<longrightarrow> units pos = Fin (if dir = Long then \<bar>n\<bar> else - \<bar>n\<bar>))
           \<and> takeProfitPrice pos
               = Some (if dir = Long
                       then num_mul p (num_add (Fin 1) (takeProfitMultiplier session))
                       else num_mul p (num_sub (Fin 1) (takeProfitMultiplier session)))
           \<and> stopLossPrice pos
               = Some (if dir = Long
                       then num_mul p (num_sub (Fin 1) (stopLossMultiplier session))
                       else num_mul p (num_add (Fin 1) (stopLossMultiplier session)))"
proof -
  from openPositionWithBroker_Inr [OF assms] obtain ep tid where
    "traderPositions w'
       = traderPositions w @ [openedPosition e session dir (Some p) ep tid (nextId w)]"
    by blast
  then show ?thesis
    using openUnits_double [of session _ dir]
    by (auto simp add: openedPosition_def openTakeProfit_def openStopLoss_def toNumber_def
        openUnits_def)
qed

text \<open>
  An example: a long and a short position of 100 units are opened at the price 3 with the
  doubles nearest to 0.01 and 0.005 as multipliers, in paper mode. The targets are the
  doubles the program stores: 3.0300000000000002 and 2.985 when long, 2.9699999999999998
  and 3.0149999999999997 when short.
\<close>

theorem open_targets_and_units_witness:
  "fst (openPositionWithBroker (example_env None (\<lambda>h c. Rejected ''offline'')) example_session
          Long (Some (Fin 3)) (example_world example_session [])) = Inr ()
   \<and> tradeUnits example_session = Fin 100
   \<and> is_double 100
   \<and> (\<exists>pos. traderPositions
               (snd (openPositionWithBroker (example_env None (\<lambda>h c. Rejected ''offline''))
                       example_session Long (Some (Fin 3)) (example_world example_session [])))
             = [pos]
           \<and> direction pos = Long \<and> units pos = Fin 100
           \<and> takeProfitPrice pos = Some (Fin (3411476717733151 / 2 ^ 50))
           \<and> stopLossPrice pos = Some (Fin (6721622443850465 / 2 ^ 51)))
   \<and> fst (openPositionWithBroker (example_env None (\<lambda>h c. Rejected ''offline'')) example_session
          Short (Some (Fin 3)) (example_world example_session [])) = Inr ()
   \<and> (\<exists>pos. traderPositions
               (snd (openPositionWithBroker (example_env None (\<lambda>h c. Rejected ''offline''))
                       example_session Short (Some (Fin 3)) (example_world example_session [])))
             = [pos]
           \<and> direction pos = Short \<and> units pos = Fin (- 100)
           \<and> takeProfitPrice pos = Some (Fin (3343922723322593 / 2 ^ 50))
           \<and> stopLossPrice pos = Some (Fin (3394588219130511 / 2 ^ 50)))"
proof -
  let ?e = "example_env None (\<lambda>h c. Rejected ''offline'')"
  let ?w = "example_world example_session []"
  have a: "fst (openPositionWithBroker ?e example_session dir (Some (Fin 3)) ?w) = Inr ()" for dir
    by (simp add: example_defs broker_defs store_defs executor_defs)
  have a': "openPositionWithBroker ?e example_session dir (Some (Fin 3)) ?w
            = (Inr (), snd (openPositionWithBroker ?e example_session dir (Some (Fin 3)) ?w))"
    for dir
    using a [of dir] by (simp add: prod_eq_iff)
  have b: "tradeUnits example_session = Fin 100"
    by (simp add: example_session_def)
  have c: "is_double 100"
    using is_double_int [of 100] by simp
  have l: "traderPositions ?w = []" by (simp add: example_world_def)
  have m: "takeProfitMultiplier example_session = Fin (5764607523034235 / 2 ^ 59)"
    "stopLossMultiplier example_session = Fin (5764607523034235 / 2 ^ 60)"
    by (simp_all add: example_session_def)
  have long: "\<exists>pos. traderPositions
               (snd (openPositionWithBroker ?e example_session Long (Some (Fin 3)) ?w)) = [pos]
           \<and> direction pos = Long \<and> units pos = Fin 100
           \<and> takeProfitPrice pos = Some (Fin (3411476717733151 / 2 ^ 50))
           \<and> stopLossPrice pos = Some (Fin (6721622443850465 / 2 ^ 51))"
    using open_targets_and_units [OF a' [of Long]] b c
    by (auto simp add: l m num_sub_def round_simps round_one_plus_tp round_tp_long
        round_one_minus_sl round_sl_long)
  have short: "\<exists>pos. traderPositions
               (snd (openPositionWithBroker ?e example_session Short (Some (Fin 3)) ?w)) = [pos]
           \<and> direction pos = Short \<and> units pos = Fin (- 100)
           \<and> takeProfitPrice pos = Some (Fin (3343922723322593 / 2 ^ 50))
           \<and> stopLossPrice pos = Some (Fin (3394588219130511 / 2 ^ 50))"
    using open_targets_and_units [OF a' [of Short]] b c
    by (auto simp add: l m num_sub_def round_simps round_one_minus_tp round_tp_short
        round_one_plus_sl round_sl_short)
  from a b c long short show ?thesis by blast
qed

text \<open>
  C6. In paper mode (broker integration not configured) opening a position succeeds
  without any network call; the recorded position is open, has no broker trade
  identifier and has the supplied market price as its entry price; and it is the record
  a successful open in broker mode creates, except for the entry price, the trade
  identifier and the timestamp.
\<close>

theorem paper_open:
  assumes "\<not> isOandaConfigured e"
  shows "\<exists>pos. fst (openPositionWithBroker e session dir (Some p) w) = Inr ()
           \<and> netCalls (snd (openPositionWithBroker e session dir (Some p) w)) = netCalls w
           \<and> traderPositions (snd (openPositionWithBroker e session dir (Some p) w))
               = traderPositions w @ [pos]
           \<and> pos_status pos = PositionOpen \<and> direction pos = dir
           \<and> oandaTradeId pos = None \<and> entryPrice pos = p
           \<and> (\<forall>e2 u w2.
                 isOandaConfigured e2
                 \<and> openPositionWithBroker e2 session dir (Some p) w = (Inr u, w2)
                 \<longrightarrow> (\<exists>pos2. traderPositions w2 = traderPositions w @ [pos2]
                        \<and> pos2\<lparr>entryPrice := p, oandaTradeId := None, openedAt := now e\<rparr>
                            = pos))"
proof -
  obtain r w' where o: "openPositionWithBroker e session dir (Some p) w = (r, w')"
    by (cases "openPositionWithBroker e session dir (Some p) w")
  with assms have "recordOpenedPosition e session dir (Some p) (Some p) None w = (r, w')"
    by (simp add: openPositionWithBroker_paper)
  from recordOpenedPosition_Some [OF this]
  have a: "r = Inr ()" "netCalls w' = netCalls w"
    "traderPositions w'
       = traderPositions w @ [openedPosition e session dir (Some p) p None (nextId w)]"
    by simp_all
  have b: "\<exists>pos2. traderPositions w2 = traderPositions w @ [pos2]
             \<and> pos2\<lparr>entryPrice := p, oandaTradeId := None, openedAt := now e\<rparr>
                 = openedPosition e session dir (Some p) p None (nextId w)"
    if "openPositionWithBroker e2 session dir (Some p) w = (Inr u, w2)" for e2 u w2
    using openPositionWithBroker_Inr [OF that] by (auto simp add: openedPosition_def)
  show ?thesis
    unfolding o using a b by (auto simp add: openedPosition_def)
qed

theorem paper_open_witness:
  "\<not> isOandaConfigured (example_env None (\<lambda>h c. Rejected ''offline''))
   \<and> isOandaConfigured
        (example_env (Some ''acct'')
           (example_net []
              (example_ok (example_body\<lparr>orderFillTransaction := Some example_fill\<rparr>))
              example_refused))
   \<and> fst (openPositionWithBroker
             (example_env (Some ''acct'')
                (example_net []
                   (example_ok (example_body\<lparr>orderFillTransaction := Some example_fill\<rparr>))
                   example_refused))
             example_session Long (Some (Fin 3)) (example_world example_session [])) = Inr ()
   \<and> (\<exists>pos. fst (openPositionWithBroker (example_env None (\<lambda>h c. Rejected ''offline''))
                   example_session Long (Some (Fin 3)) (example_world example_session []))
             = Inr ()
           \<and> netCalls (snd (openPositionWithBroker (example_env None (\<lambda>h c. Rejected ''offline''))
                   example_session Long (Some (Fin 3)) (example_world example_session [])))
             = []
           \<and> traderPositions
               (snd (openPositionWithBroker (example_env None (\<lambda>h c. Rejected ''offline''))
                   example_session Long (Some (Fin 3)) (example_world example_session [])))
             = [pos]
           \<and> oandaTradeId pos = None \<and> entryPrice pos = Fin 3
           \<and> (\<exists>pos2. traderPositions
                 (snd (openPositionWithBroker
                         (example_env (Some ''acct'')
                            (example_net []
                               (example_ok
                                  (example_body\<lparr>orderFillTransaction := Some example_fill\<rparr>))
                               example_refused))
                         example_session Long (Some (Fin 3))
                         (example_world example_session [])))
                 = [pos2]
               \<and> oandaTradeId pos2 = Some ''T1''
               \<and> pos2\<lparr>entryPrice := Fin 3, oandaTradeId := None,
                       openedAt := now (example_env None (\<lambda>h c. Rejected ''offline''))\<rparr>
                   = pos))"
proof -
  let ?e = "example_env None (\<lambda>h c. Rejected ''offline'')"
  let ?e2 = "example_env (Some ''acct'')
           (example_net []
              (example_ok (example_body\<lparr>orderFillTransaction := Some example_fill\<rparr>))
              example_refused)"
  let ?w = "example_world example_session []"
  let ?r2 = "openPositionWithBroker ?e2 example_session Long (Some (Fin 3)) ?w"
  have a: "\<not> isOandaConfigured ?e"
    by (simp add: example_defs broker_defs)
  have b: "isOandaConfigured ?e2"
    by (simp add: example_defs broker_defs)
  have c: "fst ?r2 = Inr ()"
    by (simp add: example_defs broker_defs store_defs executor_defs)
  have c': "?r2 = (Inr (), snd ?r2)"
    using c by (simp add: prod_eq_iff)
  have t: "\<exists>pos2. traderPositions (snd ?r2) = [pos2] \<and> oandaTradeId pos2 = Some ''T1''"
    by (simp add: example_defs broker_defs store_defs executor_defs)
  have l: "traderPositions ?w = []" "netCalls ?w = []" by (simp_all add: example_world_def)
  from paper_open [OF a, of example_session Long "Fin 3" ?w] obtain pos where
    p: "fst (openPositionWithBroker ?e example_session Long (Some (Fin 3)) ?w) = Inr ()"
      "netCalls (snd (openPositionWithBroker ?e example_session Long (Some (Fin 3)) ?w)) = []"
      "traderPositions (snd (openPositionWithBroker ?e example_session Long (Some (Fin 3)) ?w))
         = [pos]"
      "oandaTradeId pos = None" "entryPrice pos = Fin 3"
    and q: "\<And>e2 u w2. isOandaConfigured e2
          \<and> openPositionWithBroker e2 example_session Long (Some (Fin 3)) ?w = (Inr u, w2)
          \<Longrightarrow> (\<exists>pos2. traderPositions w2 = [pos2]
                 \<and> pos2\<lparr>entryPrice := Fin 3, oandaTradeId := None, openedAt := now ?e\<rparr> = pos)"
    by (auto simp add: l)
  from q [of ?e2 "()" "snd ?r2"] b c' obtain pos2 where
    "traderPositions (snd ?r2) = [pos2]"
    "pos2\<lparr>entryPrice := Fin 3, oandaTradeId := None, openedAt := now ?e\<rparr> = pos"
    by auto
  with t have "\<exists>pos2. traderPositions (snd ?r2) = [pos2] \<and> oandaTradeId pos2 = Some ''T1''
    \<and> pos2\<lparr>entryPrice := Fin 3, oandaTradeId := None, openedAt := now ?e\<rparr> = pos"
    by auto
  with a b c p show ?thesis by blast
qed

lemma kept_refl: "sessions_kept A w w"
  by (simp add: sessions_kept_def list_all2_same)

lemma kept_trans: "sessions_kept A w w1 \<Longrightarrow> sessions_kept A w1 w2 \<Longrightarrow> sessions_kept A w w2"
  by (auto simp add: sessions_kept_def list_all2_conv_all_nth)

lemma kept_same_sessions: "traderSessions w' = traderSessions w \<Longrightarrow> sessions_kept A w w'"
  by (simp add: sessions_kept_def list_all2_same)

lemma kept_same_tables: "same_tables w w' \<Longrightarrow> sessions_kept A w w'"
  by (simp add: same_tables_def kept_same_sessions)

lemma kept_patch:
  assumes "\<And>s. session_id (f s) = session_id s"
    and "\<And>s. x \<notin> A \<Longrightarrow> status (f s) = status s \<and> errorMessage (f s) = errorMessage s"
  shows "sessions_kept A w (db_patch_session x f w)"
  using assms
  by (auto simp add: sessions_kept_def db_patch_session_def list_all2_map2 list_all2_same)

lemma kept_get:
  assumes "sessions_kept A w w'" and "db_get_session w x = Some s"
  shows "\<exists>s'. db_get_session w' x = Some s' \<and> session_id s' = x
           \<and> (x \<notin> A \<longrightarrow> status s' = status s \<and> errorMessage s' = errorMessage s)"
proof -
  have "list_all2
       (\<lambda>s s'. session_id s' = session_id s
          \<and> (session_id s \<notin> A \<longrightarrow> status s' = status s \<and> errorMessage s' = errorMessage s))
       xs ys \<Longrightarrow> find (\<lambda>s. session_id s = x) xs = Some s \<Longrightarrow>
     \<exists>s'. find (\<lambda>s. session_id s = x) ys = Some s' \<and> session_id s' = x
           \<and> (x \<notin> A \<longrightarrow> status s' = status s \<and> errorMessage s' = errorMessage s)" for xs ys
    by (induction xs ys rule: list_all2_induct) (auto split: if_splits)
  with assms show ?thesis by (simp add: sessions_kept_def db_get_session_def)
qed

lemma db_get_session_id: "db_get_session w x = Some s \<Longrightarrow> session_id s = x"
  by (auto simp add: db_get_session_def find_Some_iff)

lemma kept_logEvent: "sessions_kept A w (logEvent e sid lvl msg det w)"
  by (simp add: kept_same_sessions logEvent_fields)

lemma kept_updateAnalytics:
  "sid \<in> A \<Longrightarrow> sessions_kept A w (updateAnalytics e sid a b c d t m w)"
  unfolding updateAnalytics_def
  by (rule kept_patch) (simp_all add: Let_def split: option.split)

lemma kept_setStatus: "sid \<in> A \<Longrightarrow> sessions_kept A w (setStatus e sid st m w)"
  unfolding setStatus_def
  by (rule kept_patch) (simp_all add: Let_def split: option.split)

lemma kept_closePositionRecord: "sessions_kept A w (closePositionRecord e pid a b reason w)"
proof (cases "db_get_position w pid")
  case None
  then show ?thesis by (simp add: closePositionRecord_def kept_refl)
next
  case (Some position)
  have "sessions_kept A w (db_patch_position pid f w)" for f
    by (simp add: kept_same_sessions db_patch_position_def)
  moreover have "sessions_kept A w1 (db_patch_session x (\<lambda>s. s\<lparr>updatedAt := now e\<rparr>) w1)" for x w1
    by (rule kept_patch) simp_all
  ultimately show ?thesis
    using Some by (auto simp add: closePositionRecord_def intro: kept_trans)
qed

lemma kept_recordClosedPosition:
  "sessions_kept A w (recordClosedPosition e session position a b reason w)"
  unfolding recordClosedPosition_def
  by (rule kept_trans [OF kept_closePositionRecord kept_logEvent])

lemma kept_closePositionWithBroker:
  assumes "closePositionWithBroker e session position mp reason w = (r, w')"
  shows "sessions_kept A w w'"
proof (cases "truthy (oandaTradeId position) \<and> isOandaConfigured e")
  case False
  with assms have "w' = recordClosedPosition e session position mp None reason w"
    by (auto simp add: closePositionWithBroker_def)
  then show ?thesis by (simp add: kept_recordClosedPosition)
next
  case True
  obtain x w1 where o: "closeTrade e (the (oandaTradeId position)) w = (x, w1)"
    by (cases "closeTrade e (the (oandaTradeId position)) w")
  note k = kept_same_tables [OF closeTrade_tables [OF o], of A]
  from assms True o
  have "w' = w1 \<or> (\<exists>a b. w' = recordClosedPosition e session position a b reason w1)"
    by (auto simp add: closePositionWithBroker_def split: sum.splits option.splits)
  with k show ?thesis
    by (auto intro: kept_trans kept_recordClosedPosition)
qed

lemma kept_recordOpenedPosition:
  assumes "recordOpenedPosition e session dir mp aep tid w = (r, w')"
  shows "sessions_kept A w w'"
proof (cases aep)
  case None
  with assms show ?thesis by (simp add: recordOpenedPosition_None kept_refl)
next
  case (Some ep)
  have 1: "sessions_kept A w (db_insert_position p w)" for p
    by (simp add: kept_same_sessions db_insert_position_def)
  have 2: "sessions_kept A w1 (db_patch_session x (\<lambda>s. s\<lparr>updatedAt := now e\<rparr>) w1)" for x w1
    by (rule kept_patch) simp_all
  from assms Some show ?thesis
    by (auto simp add: recordOpenedPosition_def createPositionRecord_def
        intro!: kept_trans [OF 1 kept_trans [OF 2 kept_logEvent]])
qed

lemma kept_openPositionWithBroker:
  assumes "openPositionWithBroker e session dir mp w = (r, w')"
  shows "sessions_kept A w w'"
proof (cases "isOandaConfigured e")
  case False
  with assms show ?thesis
    by (simp add: openPositionWithBroker_paper kept_recordOpenedPosition)
next
  case True
  obtain x w1 where o: "placeMarketOrder e (instrument session) (openUnits session dir)
      (openTakeProfit session dir mp) (openStopLoss session dir mp) w = (x, w1)"
    by (cases "placeMarketOrder e (instrument session) (openUnits session dir)
      (openTakeProfit session dir mp) (openStopLoss session dir mp) w")
  note k = kept_same_tables [OF placeMarketOrder_tables [OF o], of A]
  from assms True o
  have "w' = w1 \<or> (\<exists>aep tid. recordOpenedPosition e session dir mp aep tid w1 = (r, w'))"
    by (auto simp add: openPositionWithBroker_def split: sum.splits option.splits)
  with k show ?thesis
    by (auto intro: kept_trans kept_recordOpenedPosition)
qed

lemma kept_reconcilePositions:
  "sessions_kept A w (reconcilePositions e session latestPrice liveIds ps w)"
proof (induction ps arbitrary: w)
  case Nil
  then show ?case by (simp add: kept_refl)
next
  case (Cons p ps)
  show ?case
    using Cons.IH
    by (auto intro: kept_trans [OF kept_closePositionRecord kept_trans [OF kept_logEvent]])
qed

lemma kept_evaluateSession_reconcile:
  assumes "evaluateSession_reconcile e session latestPrice ops w = (ops', w')"
  shows "sessions_kept A w w'"
proof (cases "ops \<noteq> [] \<and> isOandaConfigured e")
  case False
  with assms show ?thesis by (auto simp add: evaluateSession_reconcile_def kept_refl)
next
  case True
  obtain x w1 where o: "getOpenTrades e w = (x, w1)" by (cases "getOpenTrades e w")
  note k = kept_same_tables [OF getOpenTrades_tables [OF o], of A]
  from assms True o show ?thesis
    by (cases x)
       (auto simp add: evaluateSession_reconcile_def Let_def
         intro: kept_trans [OF k kept_logEvent] kept_trans [OF k kept_reconcilePositions])
qed

lemma kept_evaluateSession_close:
  assumes "evaluateSession_close e session sig latestPrice ops w = (r, w')"
  shows "sessions_kept A w w'"
proof (cases ops)
  case Nil
  with assms show ?thesis by (simp add: evaluateSession_close_def kept_refl)
next
  case (Cons p ps)
  show ?thesis
  proof (cases "sig = Neutral \<or> sig \<noteq> Sig (direction p)")
    case False
    with assms Cons show ?thesis by (auto simp add: evaluateSession_close_def kept_refl)
  next
    case True
    obtain x w1 where o: "closePositionWithBroker e session p latestPrice
        (if sig = Neutral then ''neutral-signal'' else ''signal-flip'')
        (logEvent e (session_id session) Info ''Signal requires closing current position''
           (Some [(''signal'', DSignal sig), (''activeDirection'', DDirection (direction p))]) w)
        = (x, w1)"
      by (cases "closePositionWithBroker e session p latestPrice
        (if sig = Neutral then ''neutral-signal'' else ''signal-flip'')
        (logEvent e (session_id session) Info ''Signal requires closing current position''
           (Some [(''signal'', DSignal sig), (''activeDirection'', DDirection (direction p))]) w)")
    from assms Cons True o have "w' = w1"
      by (cases x) (auto simp add: evaluateSession_close_def)
    with kept_trans [OF kept_logEvent kept_closePositionWithBroker [OF o]] show ?thesis
      by simp
  qed
qed

lemma kept_evaluateSession_open:
  assumes "evaluateSession_open e session sig prev latestPrice ops w = (r, w')"
  shows "sessions_kept A w w'"
proof (cases "ops = [] \<and> sig \<noteq> Neutral \<and> sig \<noteq> prev")
  case False
  with assms show ?thesis by (auto simp add: evaluateSession_open_def kept_refl)
next
  case True
  then obtain dir where d: "sig = Sig dir" by (cases sig) auto
  from assms True d
  have "openPositionWithBroker e session dir latestPrice
          (logEvent e (session_id session) Info ''Attempting to open new position''
             (Some [(''signal'', DSignal sig)]) w) = (r, w')"
    by (simp add: evaluateSession_open_def)
  from kept_trans [OF kept_logEvent kept_openPositionWithBroker [OF this]] show ?thesis .
qed

lemma kept_evaluateSession_prepare:
  assumes "evaluateSession_prepare e session ops reason w = (r, w')"
    and "session_id session \<in> A"
  shows "sessions_kept A w w'"
proof -
  obtain x w1 where f: "fetchCandles e (instrument session) (granularity session)
      (max (longWindow session * 2) (longWindow session + 5)) w = (x, w1)"
    by (cases "fetchCandles e (instrument session) (granularity session)
      (max (longWindow session * 2) (longWindow session + 5)) w")
  note k1 = kept_same_tables [OF fetchCandles_tables [OF f], of A]
  show ?thesis
  proof (cases x)
    case (Inl err)
    with assms f have "w' = w1" by (simp add: evaluateSession_prepare_def)
    with k1 show ?thesis by simp
  next
    case (Inr cs)
    let ?closes = "map (\<lambda>c. parseFloat e (mid_c c)) (filter complete cs)"
    show ?thesis
    proof (cases "int (length ?closes) < longWindow session")
      case True
      with assms f Inr have "\<exists>m. w' = logEvent e (session_id session) Warn m None w1"
        by (auto simp add: evaluateSession_prepare_def Let_def)
      with k1 show ?thesis by (auto intro: kept_trans kept_logEvent)
    next
      case False
      let ?sig = "computeSignal (toNumber (movingAverage ?closes (shortWindow session)))
                    (toNumber (movingAverage ?closes (longWindow session)))
                    (neutralThreshold session)"
      let ?w2 = "updateAnalytics e (session_id session)
                   (movingAverage ?closes (shortWindow session))
                   (movingAverage ?closes (longWindow session)) (last_elem ?closes)
                   (Some ?sig) (Some (now e)) None w1"
      let ?w3 = "logEvent e (session_id session) Analysis ''Tick processed''
                   (Some [(''shortMA'', DNumber (movingAverage ?closes (shortWindow session))),
                          (''longMA'', DNumber (movingAverage ?closes (longWindow session))),
                          (''latestPrice'', DNumber (last_elem ?closes)),
                          (''signal'', DSignal ?sig),
                          (''previousSignal'',
                             DSignal (case lastSignal session of None \<Rightarrow> Neutral | Some s \<Rightarrow> s)),
                          (''reason'', DString (Some (case reason of None \<Rightarrow> ''scheduled''
                                                          | Some r \<Rightarrow> r)))]) ?w2"
      obtain ops1 w4 where rc: "evaluateSession_reconcile e session (last_elem ?closes) ops ?w3
          = (ops1, w4)"
        by (cases "evaluateSession_reconcile e session (last_elem ?closes) ops ?w3")
      obtain y w5 where cl: "evaluateSession_close e session ?sig (last_elem ?closes) ops1 w4
          = (y, w5)"
        by (cases "evaluateSession_close e session ?sig (last_elem ?closes) ops1 w4")
      from assms(1) f Inr False rc cl have "w' = w5"
        by (cases y) (simp_all add: evaluateSession_prepare_def Let_def)
      moreover have "sessions_kept A w1 ?w2"
        using assms(2) by (rule kept_updateAnalytics)
      moreover have "sessions_kept A ?w2 ?w3" by (rule kept_logEvent)
      moreover note k1 kept_evaluateSession_reconcile [OF rc, of A]
        kept_evaluateSession_close [OF cl, of A]
      ultimately show ?thesis by (blast intro: kept_trans)
    qed
  qed
qed


lemma setStatus_fields:
  "traderPositions (setStatus e sid st m w) = traderPositions w"
  "traderLogs (setStatus e sid st m w) = traderLogs w"
  "netCalls (setStatus e sid st m w) = netCalls w"
  by (simp_all add: setStatus_def db_patch_session_fields)





lemma find_None_map_id:
  "find (\<lambda>p. position_id p = pid) xs = None \<Longrightarrow>
   map (\<lambda>p. if position_id p = pid then f p else p) xs = xs"
  by (induction xs) (auto split: if_splits)

lemma closePositionRecord_positions:
  "traderPositions (closePositionRecord e pid latestPrice None ''broker-closed'' w)
   = map (\<lambda>p. if position_id p = pid then brokerClosed e latestPrice p else p)
       (traderPositions w)"
proof (cases "db_get_position w pid")
  case None
  then show ?thesis
    by (simp add: closePositionRecord_def db_get_position_def find_None_map_id)
next
  case (Some position)
  then show ?thesis
    by (cases latestPrice)
       (simp_all add: closePositionRecord_def db_patch_session_fields db_patch_position_def
         brokerClosed_def Let_def)
qed

lemma brokerClosed_id: "position_id (brokerClosed e latestPrice p) = position_id p"
  by (simp add: brokerClosed_def)

lemma brokerClosed_idem:
  "brokerClosed e latestPrice (brokerClosed e latestPrice p) = brokerClosed e latestPrice p"
  by (cases latestPrice) (simp_all add: brokerClosed_def)

lemma reconcilePositions_Cons:
  "reconcilePositions e session latestPrice liveIds (p # ps) w
   = (if stale liveIds p then
        reconcilePositions e session latestPrice liveIds ps
          (logEvent e (session_id session) Trade ''Detected broker-closed position''
             (Some [(''positionId'', DId (position_id p)),
                    (''tradeId'', DString (oandaTradeId p))])
             (closePositionRecord e (position_id p) latestPrice None ''broker-closed'' w))
      else reconcilePositions e session latestPrice liveIds ps w)"
  by (simp add: stale_def)

lemma reconcilePositions_positions:
  "traderPositions (reconcilePositions e session latestPrice liveIds ps w)
   = map (\<lambda>q. if position_id q \<in> position_id ` {p \<in> set ps. stale liveIds p}
               then brokerClosed e latestPrice q else q)
       (traderPositions w)"
proof (induction ps arbitrary: w)
  case Nil
  then show ?case by simp
next
  case (Cons p ps)
  show ?case
  proof (cases "stale liveIds p")
    case False
    then have "{q \<in> set (p # ps). stale liveIds q} = {q \<in> set ps. stale liveIds q}" by auto
    with False Cons.IH show ?thesis
      by (simp add: reconcilePositions_Cons del: reconcilePositions.simps)
  next
    case True
    then have s: "{q \<in> set (p # ps). stale liveIds q} = insert p {q \<in> set ps. stale liveIds q}"
      by auto
    from True show ?thesis
      unfolding s
      by (auto simp add: reconcilePositions_Cons Cons.IH logEvent_fields
          closePositionRecord_positions brokerClosed_id brokerClosed_idem
          simp del: reconcilePositions.simps)
  qed
qed

lemma find_map_distinct:
  assumes "distinct (map position_id xs)" and "p \<in> set xs"
    and "\<And>q. position_id (f q) = position_id q"
  shows "find (\<lambda>q. position_id q = position_id p) (map f xs) = Some (f p)"
  using assms(1,2)
proof (induction xs)
  case Nil
  then show ?case by simp
next
  case (Cons x xs)
  then show ?case using assms(3) by (auto simp add: image_iff)
qed

lemma evaluateSession_reconcile_positions:
  assumes "ops \<noteq> []" and "isOandaConfigured e"
    and "getOpenTrades e w = (Inr liveTrades, w1)"
  shows "traderPositions (snd (evaluateSession_reconcile e session latestPrice ops w))
         = map (\<lambda>q. if position_id q
                         \<in> position_id ` {p \<in> set ops. stale (liveId ` set liveTrades) p}
                     then brokerClosed e latestPrice q else q)
             (traderPositions w)"
proof -
  have "traderPositions w1 = traderPositions w"
    using getOpenTrades_tables [OF assms(3)] by (simp add: same_tables_def)
  with assms show ?thesis
    by (simp add: evaluateSession_reconcile_def Let_def reconcilePositions_positions)
qed

text \<open>
  C7. Broker integration is configured and the open-trades query succeeds. Then every
  position of the local view whose trade identifier is not among the broker's open
  trades is, after the reconciliation step, the same record marked closed, with close
  reason \<^verbatim>\<open>broker-closed\<close>, the latest price as exit price and its realized P&L as it
  was; and every position of the store without a trade identifier is as it was. The
  positions of the store have distinct identifiers and the local view is part of the
  store.
\<close>

theorem reconciliation_closes_stale_positions:
  assumes "isOandaConfigured e"
    and "getOpenTrades e w = (Inr liveTrades, w1)"
    and "distinct (map position_id (traderPositions w))"
    and "set ops \<subseteq> set (traderPositions w)"
  shows "(\<forall>p \<in> set ops.
            truthy (oandaTradeId p) \<and> the (oandaTradeId p) \<notin> liveId ` set liveTrades
            \<longrightarrow> db_get_position (snd (evaluateSession_reconcile e session (Some price) ops w))
                  (position_id p)
                = Some (p\<lparr>pos_status := PositionClosed, closedAt := Some (now e),
                          closeReason := Some ''broker-closed'', exitPrice := Some price\<rparr>))
         \<and> (\<forall>p \<in> set (traderPositions w).
               \<not> truthy (oandaTradeId p)
               \<longrightarrow> db_get_position (snd (evaluateSession_reconcile e session (Some price) ops w))
                     (position_id p)
                   = Some p)"
proof (cases "ops = []")
  case True
  have "find (\<lambda>q. position_id q = position_id p) (map (\<lambda>q. q) (traderPositions w)) = Some p"
    if "p \<in> set (traderPositions w)" for p
    using assms(3) that by (rule find_map_distinct) simp
  with True show ?thesis
    by (simp add: evaluateSession_reconcile_def db_get_position_def)
next
  case False
  let ?C = "position_id ` {p \<in> set ops. stale (liveId ` set liveTrades) p}"
  let ?f = "\<lambda>q. if position_id q \<in> ?C then brokerClosed e (Some price) q else q"
  have pos: "traderPositions (snd (evaluateSession_reconcile e session (Some price) ops w))
             = map ?f (traderPositions w)"
    using False assms(1,2) by (rule evaluateSession_reconcile_positions)
  have get: "db_get_position (snd (evaluateSession_reconcile e session (Some price) ops w))
               (position_id p) = Some (?f p)"
    if "p \<in> set (traderPositions w)" for p
    unfolding db_get_position_def pos
    using assms(3) that by (rule find_map_distinct) (simp add: brokerClosed_id)
  have a: "?f p = p\<lparr>pos_status := PositionClosed, closedAt := Some (now e),
                     closeReason := Some ''broker-closed'', exitPrice := Some price\<rparr>"
    if "p \<in> set ops" "truthy (oandaTradeId p)" "the (oandaTradeId p) \<notin> liveId ` set liveTrades"
    for p
    using that by (auto simp add: stale_def brokerClosed_def)
  have b: "?f p = p" if "p \<in> set (traderPositions w)" "\<not> truthy (oandaTradeId p)" for p
  proof -
    have "position_id p \<notin> ?C"
    proof
      assume "position_id p \<in> ?C"
      then obtain q where q: "q \<in> set ops" "stale (liveId ` set liveTrades) q"
        "position_id q = position_id p"
        by auto
      with assms(4) have "q \<in> set (traderPositions w)" by auto
      with assms(3) that(1) q(3) have "q = p"
        by (metis distinct_map inj_onD)
      with q(2) that(2) show False by (simp add: stale_def)
    qed
    then show ?thesis by simp
  qed
  show ?thesis
    using get a b assms(4) by (auto simp add: subset_iff)
qed

theorem reconciliation_closes_stale_positions_witness:
  "isOandaConfigured example_syncing_env
   \<and> fst (getOpenTrades example_syncing_env
             (example_world example_session
                [example_position 5 Long (Some ''T9''), example_position 6 Long None]))
       = Inr [example_trade ''T1'']
   \<and> distinct (map position_id
        (traderPositions
           (example_world example_session
              [example_position 5 Long (Some ''T9''), example_position 6 Long None])))
   \<and> set [example_position 5 Long (Some ''T9''), example_position 6 Long None]
       \<subseteq> set (traderPositions
             (example_world example_session
                [example_position 5 Long (Some ''T9''), example_position 6 Long None]))
   \<and> truthy (oandaTradeId (example_position 5 Long (Some ''T9'')))
   \<and> the (oandaTradeId (example_position 5 Long (Some ''T9'')))
       \<notin> liveId ` set [example_trade ''T1'']
   \<and> \<not> truthy (oandaTradeId (example_position 6 Long None))
   \<and> db_get_position
        (snd (evaluateSession_reconcile example_syncing_env example_session (Some (Fin 3))
                [example_position 5 Long (Some ''T9''), example_position 6 Long None]
                (example_world example_session
                   [example_position 5 Long (Some ''T9''), example_position 6 Long None])))
        5
      = Some ((example_position 5 Long (Some ''T9''))
               \<lparr>pos_status := PositionClosed, closedAt := Some 1000,
                 closeReason := Some ''broker-closed'', exitPrice := Some (Fin 3)\<rparr>)
   \<and> db_get_position
        (snd (evaluateSession_reconcile example_syncing_env example_session (Some (Fin 3))
                [example_position 5 Long (Some ''T9''), example_position 6 Long None]
                (example_world example_session
                   [example_position 5 Long (Some ''T9''), example_position 6 Long None])))
        6
      = Some (example_position 6 Long None)"
proof -
  let ?e = example_syncing_env
  let ?ps = "[example_position 5 Long (Some ''T9''), example_position 6 Long None]"
  let ?w = "example_world example_session ?ps"
  have a: "isOandaConfigured ?e"
    by (simp add: example_syncing_env_def example_defs broker_defs)
  have b: "fst (getOpenTrades ?e ?w) = Inr [example_trade ''T1'']"
    by (simp add: example_syncing_env_def example_defs broker_defs Let_def)
  have b': "getOpenTrades ?e ?w = (Inr [example_trade ''T1''], snd (getOpenTrades ?e ?w))"
    using b by (simp add: prod_eq_iff)
  have c: "distinct (map position_id (traderPositions ?w))"
    by (simp add: example_defs example_position_def)
  have d: "set ?ps \<subseteq> set (traderPositions ?w)"
    by (simp add: example_defs)
  have f: "truthy (oandaTradeId (example_position 5 Long (Some ''T9'')))"
    "the (oandaTradeId (example_position 5 Long (Some ''T9''))) \<notin> liveId ` set [example_trade ''T1'']"
    "\<not> truthy (oandaTradeId (example_position 6 Long None))"
    by (simp_all add: example_position_def example_trade_def truthy_def liveId_def)
  have n: "now ?e = 1000" by (simp add: example_syncing_env_def example_defs)
  have ids: "position_id (example_position 5 Long (Some ''T9'')) = 5"
    "position_id (example_position 6 Long None) = 6"
    by (simp_all add: example_position_def)
  have w: "traderPositions ?w = ?ps" by (simp add: example_defs)
  from reconciliation_closes_stale_positions [OF a b' c d, of example_session "Fin 3"] f
  have "db_get_position
        (snd (evaluateSession_reconcile ?e example_session (Some (Fin 3)) ?ps ?w)) 5
      = Some ((example_position 5 Long (Some ''T9''))
               \<lparr>pos_status := PositionClosed, closedAt := Some 1000,
                 closeReason := Some ''broker-closed'', exitPrice := Some (Fin 3)\<rparr>)
   \<and> db_get_position
        (snd (evaluateSession_reconcile ?e example_session (Some (Fin 3)) ?ps ?w)) 6
      = Some (example_position 6 Long None)"
    unfolding w by (simp add: n ids)
  with a b c d f show ?thesis by simp
qed

lemma tick_not_running_is_noop_aux:
  "db_get_session w sid = Some session \<Longrightarrow> status session \<noteq> StatusRunning
   \<Longrightarrow> evaluateSession e sid reason w = (Inr (), w)"
  by (simp add: evaluateSession_def getSessionState_def)

lemma closePositionRecord_length:
  "length (traderPositions (closePositionRecord e pid a b reason w))
   = length (traderPositions w)"
  by (cases "db_get_position w pid")
     (simp_all add: closePositionRecord_def db_patch_session_fields db_patch_position_def)

lemma recordClosedPosition_length:
  "length (traderPositions (recordClosedPosition e session position a b reason w))
   = length (traderPositions w)"
  by (simp add: recordClosedPosition_def logEvent_fields closePositionRecord_length)

lemma closePositionWithBroker_length:
  assumes "closePositionWithBroker e session position mp reason w = (r, w')"
  shows "length (traderPositions w') = length (traderPositions w)"
proof (cases "truthy (oandaTradeId position) \<and> isOandaConfigured e")
  case False
  with assms have "w' = recordClosedPosition e session position mp None reason w"
    by (auto simp add: closePositionWithBroker_def)
  then show ?thesis by (simp add: recordClosedPosition_length)
next
  case True
  obtain x w1 where o: "closeTrade e (the (oandaTradeId position)) w = (x, w1)"
    by (cases "closeTrade e (the (oandaTradeId position)) w")
  have k: "traderPositions w1 = traderPositions w"
    using closeTrade_tables [OF o] by (simp add: same_tables_def)
  from assms True o
  have "w' = w1 \<or> (\<exists>a b. w' = recordClosedPosition e session position a b reason w1)"
    by (auto simp add: closePositionWithBroker_def split: sum.splits option.splits)
  with k show ?thesis
    by (auto simp add: recordClosedPosition_length)
qed

lemma openPositionsOf_cong:
  "traderPositions w' = traderPositions w \<Longrightarrow> openPositionsOf w' sid = openPositionsOf w sid"
  by (simp add: openPositionsOf_def)

lemma refreshOpenPositions_eq:
  "db_get_session w sid = Some s \<Longrightarrow> refreshOpenPositions w sid = openPositionsOf w sid"
  by (simp add: refreshOpenPositions_def getSessionState_def)

lemma evaluateSession_reconcile_view:
  assumes "evaluateSession_reconcile e session latestPrice ops w = (ops', w')"
    and "ops = openPositionsOf w (session_id session)"
    and "db_get_session w (session_id session) = Some s"
  shows "ops' = openPositionsOf w' (session_id session)
         \<and> length (traderPositions w') = length (traderPositions w)"
proof (cases "ops \<noteq> [] \<and> isOandaConfigured e")
  case False
  with assms show ?thesis by (auto simp add: evaluateSession_reconcile_def)
next
  case True
  obtain x w1 where o: "getOpenTrades e w = (x, w1)" by (cases "getOpenTrades e w")
  have k: "traderPositions w1 = traderPositions w"
    using getOpenTrades_tables [OF o] by (simp add: same_tables_def)
  show ?thesis
  proof (cases x)
    case (Inl err)
    with assms(1) True o
    have "ops' = ops" "traderPositions w' = traderPositions w1"
      by (auto simp add: evaluateSession_reconcile_def logEvent_fields)
    with k assms(2) show ?thesis by (simp add: openPositionsOf_def)
  next
    case (Inr liveTrades)
    from kept_get [OF kept_evaluateSession_reconcile [OF assms(1), of "{}"] assms(3)]
    obtain s' where g: "db_get_session w' (session_id session) = Some s'" by blast
    from assms(1) True o Inr
    have w': "w' = reconcilePositions e session latestPrice (set (map liveId liveTrades)) ops w1"
      and "ops' = refreshOpenPositions w' (session_id session)"
      by (auto simp add: evaluateSession_reconcile_def Let_def)
    with g k show ?thesis
      by (simp add: refreshOpenPositions_eq reconcilePositions_positions)
  qed
qed

lemma evaluateSession_close_view:
  assumes "evaluateSession_close e session sig latestPrice ops w = (Inr ops', w')"
    and "ops = openPositionsOf w (session_id session)"
    and "db_get_session w (session_id session) = Some s"
  shows "ops' = openPositionsOf w' (session_id session)"
proof (cases ops)
  case Nil
  with assms(1) have "ops' = ops" "w' = w" by (simp_all add: evaluateSession_close_def)
  with assms(2) show ?thesis by simp
next
  case (Cons p ps)
  show ?thesis
  proof (cases "sig = Neutral \<or> sig \<noteq> Sig (direction p)")
    case False
    with assms(1) Cons have "ops' = ops" "w' = w"
      by (auto simp add: evaluateSession_close_def)
    with assms(2) show ?thesis by simp
  next
    case True
    from kept_get [OF kept_evaluateSession_close [OF assms(1), of "{}"] assms(3)]
    obtain s' where g: "db_get_session w' (session_id session) = Some s'" by blast
    from assms(1) Cons True have "ops' = refreshOpenPositions w' (session_id session)"
      by (auto simp add: evaluateSession_close_def split: prod.splits sum.splits)
    with g show ?thesis by (simp add: refreshOpenPositions_eq)
  qed
qed

lemma evaluateSession_close_length:
  assumes "evaluateSession_close e session sig latestPrice ops w = (r, w')"
  shows "length (traderPositions w') = length (traderPositions w)"
proof (cases ops)
  case Nil
  with assms show ?thesis by (simp add: evaluateSession_close_def)
next
  case (Cons p ps)
  show ?thesis
  proof (cases "sig = Neutral \<or> sig \<noteq> Sig (direction p)")
    case False
    with assms Cons show ?thesis by (auto simp add: evaluateSession_close_def)
  next
    case True
    obtain x w1 where o: "closePositionWithBroker e session p latestPrice
        (if sig = Neutral then ''neutral-signal'' else ''signal-flip'')
        (logEvent e (session_id session) Info ''Signal requires closing current position''
           (Some [(''signal'', DSignal sig), (''activeDirection'', DDirection (direction p))]) w)
        = (x, w1)"
      by (cases "closePositionWithBroker e session p latestPrice
        (if sig = Neutral then ''neutral-signal'' else ''signal-flip'')
        (logEvent e (session_id session) Info ''Signal requires closing current position''
           (Some [(''signal'', DSignal sig), (''activeDirection'', DDirection (direction p))]) w)")
    from assms Cons True o have "w' = w1"
      by (cases x) (auto simp add: evaluateSession_close_def)
    with closePositionWithBroker_length [OF o] show ?thesis
      by (simp add: logEvent_fields)
  qed
qed

lemma evaluateSession_prepare_cases:
  assumes "evaluateSession_prepare e session ops reason w = (r, w')"
  obtains (fetch_failed) err where
      "fetchCandles e (instrument session) (granularity session)
         (max (longWindow session * 2) (longWindow session + 5)) w = (Inl err, w')"
      "r = Inl err"
    | (insufficient) cs w1 m where
      "fetchCandles e (instrument session) (granularity session)
         (max (longWindow session * 2) (longWindow session + 5)) w = (Inr cs, w1)"
      "int (length (closesOf e cs)) < longWindow session"
      "r = Inr None"
      "w' = logEvent e (session_id session) Warn m None w1"
    | (evaluated) cs w1 det ops1 w4 y where
      "fetchCandles e (instrument session) (granularity session)
         (max (longWindow session * 2) (longWindow session + 5)) w = (Inr cs, w1)"
      "\<not> int (length (closesOf e cs)) < longWindow session"
      "evaluateSession_reconcile e session (last_elem (closesOf e cs)) ops
         (logEvent e (session_id session) Analysis ''Tick processed'' det
            (updateAnalytics e (session_id session)
               (movingAverage (closesOf e cs) (shortWindow session))
               (movingAverage (closesOf e cs) (longWindow session))
               (last_elem (closesOf e cs)) (Some (signalOf e session cs)) (Some (now e)) None
               w1))
       = (ops1, w4)"
      "evaluateSession_close e session (signalOf e session cs) (last_elem (closesOf e cs))
         ops1 w4 = (y, w')"
      "r = (case y of
              Inl err \<Rightarrow> Inl err
            | Inr ops' \<Rightarrow>
                Inr (Some (signalOf e session cs,
                           (case lastSignal session of None \<Rightarrow> Neutral | Some s \<Rightarrow> s),
                           last_elem (closesOf e cs), ops')))"
proof -
  obtain x w1 where f: "fetchCandles e (instrument session) (granularity session)
      (max (longWindow session * 2) (longWindow session + 5)) w = (x, w1)"
    by (cases "fetchCandles e (instrument session) (granularity session)
      (max (longWindow session * 2) (longWindow session + 5)) w")
  show thesis
  proof (cases x)
    case (Inl err)
    with assms f have "w' = w1" "r = Inl err" by (simp_all add: evaluateSession_prepare_def)
    with f Inl show thesis by (auto intro: fetch_failed)
  next
    case (Inr cs)
    show thesis
    proof (cases "int (length (closesOf e cs)) < longWindow session")
      case True
      with assms f Inr
      have "r = Inr None" "\<exists>m. w' = logEvent e (session_id session) Warn m None w1"
        by (auto simp add: evaluateSession_prepare_def Let_def closesOf_def)
      with f Inr True show thesis by (auto intro: insufficient)
    next
      case False
      let ?det = "Some [(''shortMA'', DNumber (movingAverage (closesOf e cs) (shortWindow session))),
                          (''longMA'', DNumber (movingAverage (closesOf e cs) (longWindow session))),
                          (''latestPrice'', DNumber (last_elem (closesOf e cs))),
                          (''signal'', DSignal (signalOf e session cs)),
                          (''previousSignal'',
                             DSignal (case lastSignal session of None \<Rightarrow> Neutral | Some s \<Rightarrow> s)),
                          (''reason'', DString (Some (case reason of None \<Rightarrow> ''scheduled''
                                                          | Some r \<Rightarrow> r)))]"
      let ?w3 = "logEvent e (session_id session) Analysis ''Tick processed'' ?det
            (updateAnalytics e (session_id session)
               (movingAverage (closesOf e cs) (shortWindow session))
               (movingAverage (closesOf e cs) (longWindow session))
               (last_elem (closesOf e cs)) (Some (signalOf e session cs)) (Some (now e)) None
               w1)"
      obtain ops1 w4 where rc:
        "evaluateSession_reconcile e session (last_elem (closesOf e cs)) ops ?w3 = (ops1, w4)"
        by (cases "evaluateSession_reconcile e session (last_elem (closesOf e cs)) ops ?w3")
      obtain y w5 where cl:
        "evaluateSession_close e session (signalOf e session cs) (last_elem (closesOf e cs))
           ops1 w4 = (y, w5)"
        by (cases "evaluateSession_close e session (signalOf e session cs)
                     (last_elem (closesOf e cs)) ops1 w4")
      from assms f Inr False rc cl
      have "w' = w5"
        "r = (case y of
              Inl err \<Rightarrow> Inl err
            | Inr ops' \<Rightarrow>
                Inr (Some (signalOf e session cs,
                           (case lastSignal session of None \<Rightarrow> Neutral | Some s \<Rightarrow> s),
                           last_elem (closesOf e cs), ops')))"
        by (cases y; simp add: evaluateSession_prepare_def Let_def closesOf_def signalOf_def)+
      with f Inr False rc cl show thesis by (auto intro: evaluated)
    qed
  qed
qed

lemma evaluateSession_reconcile_length:
  assumes "evaluateSession_reconcile e session latestPrice ops w = (ops', w')"
  shows "length (traderPositions w') = length (traderPositions w)"
proof (cases "ops \<noteq> [] \<and> isOandaConfigured e")
  case False
  with assms show ?thesis by (auto simp add: evaluateSession_reconcile_def)
next
  case True
  obtain x w1 where o: "getOpenTrades e w = (x, w1)" by (cases "getOpenTrades e w")
  have k: "traderPositions w1 = traderPositions w"
    using getOpenTrades_tables [OF o] by (simp add: same_tables_def)
  from assms True o k show ?thesis
    by (cases x)
       (auto simp add: evaluateSession_reconcile_def Let_def logEvent_fields
         reconcilePositions_positions)
qed

lemma updateAnalytics_fields:
  "traderPositions (updateAnalytics e sid a b c d t m w) = traderPositions w"
  "nextId (updateAnalytics e sid a b c d t m w) = nextId w"
  "netCalls (updateAnalytics e sid a b c d t m w) = netCalls w"
  by (simp_all add: updateAnalytics_def db_patch_session_fields)

lemma evaluateSession_prepare_length:
  assumes "evaluateSession_prepare e session ops reason w = (r, w')"
  shows "length (traderPositions w') = length (traderPositions w)"
  using assms
proof (cases rule: evaluateSession_prepare_cases)
  case (fetch_failed err)
  from fetchCandles_tables [OF fetch_failed(1)] show ?thesis by (simp add: same_tables_def)
next
  case (insufficient cs w1 m)
  from fetchCandles_tables [OF insufficient(1)] insufficient(4) show ?thesis
    by (simp add: same_tables_def logEvent_fields)
next
  case (evaluated cs w1 det ops1 w4 y)
  from fetchCandles_tables [OF evaluated(1)] evaluateSession_reconcile_length [OF evaluated(3)]
    evaluateSession_close_length [OF evaluated(4)]
  show ?thesis
    by (simp add: same_tables_def logEvent_fields updateAnalytics_fields)
qed

lemma evaluateSession_prepare_view:
  assumes "evaluateSession_prepare e session (openPositionsOf w sid) reason w
           = (Inr (Some (sig, prev, price, ops)), w')"
    and "db_get_session w sid = Some session"
  shows "ops = openPositionsOf w' sid
         \<and> prev = (case lastSignal session of None \<Rightarrow> Neutral | Some s \<Rightarrow> s)
         \<and> (\<exists>cs w1. fetchCandles e (instrument session) (granularity session)
                        (max (longWindow session * 2) (longWindow session + 5)) w = (Inr cs, w1)
                      \<and> sig = signalOf e session cs \<and> price = last_elem (closesOf e cs))"
  using assms(1)
proof (cases rule: evaluateSession_prepare_cases)
  case (fetch_failed err)
  then show ?thesis by simp
next
  case (insufficient cs w1 m)
  then show ?thesis by simp
next
  case (evaluated cs w1 det ops1 w4 y)
  have id: "session_id session = sid" using assms(2) by (rule db_get_session_id)
  let ?w3 = "logEvent e (session_id session) Analysis ''Tick processed'' det
            (updateAnalytics e (session_id session)
               (movingAverage (closesOf e cs) (shortWindow session))
               (movingAverage (closesOf e cs) (longWindow session))
               (last_elem (closesOf e cs)) (Some (signalOf e session cs)) (Some (now e)) None
               w1)"
  from evaluated(5) obtain ops' where y: "y = Inr ops'"
    and d: "sig = signalOf e session cs"
      "prev = (case lastSignal session of None \<Rightarrow> Neutral | Some s \<Rightarrow> s)"
      "price = last_elem (closesOf e cs)" "ops = ops'"
    by (cases y) auto
  have p3: "traderPositions ?w3 = traderPositions w"
    using fetchCandles_tables [OF evaluated(1)]
    by (simp add: same_tables_def logEvent_fields updateAnalytics_fields)
  have k3: "sessions_kept {sid} w ?w3"
    by (rule kept_trans [OF kept_same_tables [OF fetchCandles_tables [OF evaluated(1)]]
          kept_trans [OF kept_updateAnalytics kept_logEvent]])
       (simp add: id)
  from kept_get [OF k3 assms(2)] obtain s3 where g3: "db_get_session ?w3 sid = Some s3"
    by blast
  have v3: "openPositionsOf w sid = openPositionsOf ?w3 (session_id session)"
    using p3 id by (simp add: openPositionsOf_def)
  from evaluateSession_reconcile_view [OF evaluated(3) v3] g3 id
  have v4: "ops1 = openPositionsOf w4 (session_id session)" by simp
  from kept_get [OF kept_evaluateSession_reconcile [OF evaluated(3), of "{}"]] g3 id
  obtain s4 where g4: "db_get_session w4 (session_id session) = Some s4" by auto
  from evaluateSession_close_view [OF evaluated(4) [unfolded y] v4 g4] id d evaluated(1)
  show ?thesis by auto
qed

lemma evaluateSession_open_result:
  assumes "evaluateSession_open e session sig prev price ops w = (r, w')"
  shows "traderPositions w' = traderPositions w
         \<or> (ops = [] \<and> sig \<noteq> prev
            \<and> (\<exists>dir ep tid. sig = Sig dir
                  \<and> traderPositions w'
                      = traderPositions w @ [openedPosition e session dir price ep tid (nextId w)]))"
proof (cases "ops = [] \<and> sig \<noteq> Neutral \<and> sig \<noteq> prev")
  case False
  with assms show ?thesis by (auto simp add: evaluateSession_open_def)
next
  case True
  then obtain dir where d: "sig = Sig dir" by (cases sig) auto
  let ?wl = "logEvent e (session_id session) Info ''Attempting to open new position''
             (Some [(''signal'', DSignal sig)]) w"
  from assms True d
  have o: "openPositionWithBroker e session dir price ?wl = (r, w')"
    by (simp add: evaluateSession_open_def)
  show ?thesis
  proof (cases r)
    case (Inl err)
    from openPositionWithBroker_Inl [OF o [unfolded Inl]] show ?thesis
      by (simp add: same_tables_def logEvent_fields)
  next
    case (Inr u)
    from openPositionWithBroker_Inr [OF o [unfolded Inr]] True d show ?thesis
      by (auto simp add: logEvent_fields)
  qed
qed

text \<open>
  A tick that adds a position record reached the opening step with an empty local list
  of open positions, which is also what the store held for the session at that moment;
  the signal it had computed from the fetched candles was a direction, different from
  the signal the session had recorded before the tick; and after the tick the new
  record, in that direction, is the only open position of the session.
\<close>

lemma evaluateSession_opening:
  assumes "db_get_session w sid = Some session"
    and "length (traderPositions w)
           < length (traderPositions (snd (evaluateSession e sid reason w)))"
  shows "\<exists>dir prev price w5 cs w1 pos.
           evaluateSession_prepare e session (openPositionsOf w sid) reason w
             = (Inr (Some (Sig dir, prev, price, [])), w5)
           \<and> fetchCandles e (instrument session) (granularity session)
                (max (longWindow session * 2) (longWindow session + 5)) w = (Inr cs, w1)
           \<and> Sig dir = signalOf e session cs
           \<and> prev = (case lastSignal session of None \<Rightarrow> Neutral | Some s \<Rightarrow> s)
           \<and> Sig dir \<noteq> prev
           \<and> openPositionsOf w5 sid = []
           \<and> traderPositions (snd (evaluateSession e sid reason w)) = traderPositions w5 @ [pos]
           \<and> direction pos = dir
           \<and> openPositionsOf (snd (evaluateSession e sid reason w)) sid = [pos]"
proof -
  have id: "session_id session = sid" using assms(1) by (rule db_get_session_id)
  have run: "status session = StatusRunning"
  proof (rule ccontr)
    assume "status session \<noteq> StatusRunning"
    with assms(1) have "evaluateSession e sid reason w = (Inr (), w)"
      by (rule tick_not_running_is_noop_aux)
    with assms(2) show False by simp
  qed
  obtain r w6 where tr: "evaluateSession_try e session (openPositionsOf w sid) reason w = (r, w6)"
    by (cases "evaluateSession_try e session (openPositionsOf w sid) reason w")
  have fin: "traderPositions (snd (evaluateSession e sid reason w)) = traderPositions w6"
    using assms(1) run tr
    by (cases r)
       (simp_all add: evaluateSession_def getSessionState_def setStatus_fields logEvent_fields)
  obtain x w5 where pr:
    "evaluateSession_prepare e session (openPositionsOf w sid) reason w = (x, w5)"
    by (cases "evaluateSession_prepare e session (openPositionsOf w sid) reason w")
  note len = evaluateSession_prepare_length [OF pr]
  have "\<exists>sig prev price ops. x = Inr (Some (sig, prev, price, ops))"
  proof (rule ccontr)
    assume "\<not> ?thesis"
    with tr pr have "w6 = w5"
      by (cases x) (auto simp add: evaluateSession_try_def split: option.splits)
    with fin len assms(2) show False by simp
  qed
  then obtain sig prev price ops where x: "x = Inr (Some (sig, prev, price, ops))" by blast
  from tr pr x have op: "evaluateSession_open e session sig prev price ops w5 = (r, w6)"
    by (simp add: evaluateSession_try_def)
  from evaluateSession_open_result [OF op] fin len assms(2)
  obtain dir ep tid where o: "ops = []" "sig \<noteq> prev" "sig = Sig dir"
    "traderPositions w6 = traderPositions w5 @ [openedPosition e session dir price ep tid (nextId w5)]"
    by auto
  from evaluateSession_prepare_view [OF pr [unfolded x] assms(1)] o(1)
  obtain cs w1 where v: "openPositionsOf w5 sid = []"
    "prev = (case lastSignal session of None \<Rightarrow> Neutral | Some s \<Rightarrow> s)"
    "fetchCandles e (instrument session) (granularity session)
       (max (longWindow session * 2) (longWindow session + 5)) w = (Inr cs, w1)"
    "sig = signalOf e session cs"
    by auto
  have after: "openPositionsOf (snd (evaluateSession e sid reason w)) sid
               = [openedPosition e session dir price ep tid (nextId w5)]"
    using v(1) id by (simp add: openPositionsOf_def fin o(4) openedPosition_def)
  show ?thesis
    using pr x o v after fin by (auto simp add: openedPosition_def)
qed

lemma kept_evaluateSession_try:
  assumes "evaluateSession_try e session ops reason w = (r, w')"
    and "session_id session \<in> A"
  shows "sessions_kept A w w'"
proof -
  obtain x w5 where pr: "evaluateSession_prepare e session ops reason w = (x, w5)"
    by (cases "evaluateSession_prepare e session ops reason w")
  note k = kept_evaluateSession_prepare [OF pr assms(2)]
  show ?thesis
  proof (cases "\<exists>sig prev price ops'. x = Inr (Some (sig, prev, price, ops'))")
    case False
    with assms(1) pr have "w' = w5"
      by (cases x) (auto simp add: evaluateSession_try_def split: option.splits)
    with k show ?thesis by simp
  next
    case True
    then obtain sig prev price ops' where x: "x = Inr (Some (sig, prev, price, ops'))" by blast
    with assms(1) pr have "evaluateSession_open e session sig prev price ops' w5 = (r, w')"
      by (simp add: evaluateSession_try_def)
    from kept_trans [OF k kept_evaluateSession_open [OF this]] show ?thesis .
  qed
qed

lemma kept_evaluateSession:
  assumes "evaluateSession e x reason w = (r, w')"
  shows "sessions_kept {x} w w'"
proof (cases "db_get_session w x")
  case None
  with assms show ?thesis by (simp add: evaluateSession_def getSessionState_def kept_refl)
next
  case (Some session)
  then have id: "session_id session = x" by (rule db_get_session_id)
  show ?thesis
  proof (cases "status session = StatusRunning")
    case False
    with assms Some show ?thesis
      by (simp add: evaluateSession_def getSessionState_def kept_refl)
  next
    case True
    obtain y w1 where tr: "evaluateSession_try e session (openPositionsOf w x) reason w = (y, w1)"
      by (cases "evaluateSession_try e session (openPositionsOf w x) reason w")
    have k: "sessions_kept {x} w w1"
      using tr by (rule kept_evaluateSession_try) (simp add: id)
    show ?thesis
    proof (cases y)
      case (Inr u)
      with assms Some True tr have "w' = w1"
        by (simp add: evaluateSession_def getSessionState_def)
      with k show ?thesis by simp
    next
      case (Inl err)
      with assms Some True tr id
      have "w' = setStatus e x StatusError (Some (formatError err))
                   (logEvent e x ErrorLevel (''Evaluation failed: '' @ formatError err) None w1)"
        by (simp add: evaluateSession_def getSessionState_def)
      then show ?thesis
        using kept_trans [OF k kept_trans [OF kept_logEvent kept_setStatus]] by simp
    qed
  qed
qed

lemma in_error_kept:
  assumes "in_error w sid m" and "sessions_kept A w w'" and "sid \<notin> A"
  shows "in_error w' sid m"
proof -
  from assms(1) obtain s where s: "db_get_session w sid = Some s" "status s = StatusError"
    "errorMessage s = Some m"
    by (auto simp add: in_error_def split: option.splits)
  from kept_get [OF assms(2) s(1)] assms(3) s(2,3) show ?thesis
    by (auto simp add: in_error_def)
qed

lemma in_error_evaluateSession:
  assumes "in_error w sid m"
  shows "in_error (snd (evaluateSession e x reason w)) sid m"
proof (cases "x = sid")
  case True
  from assms obtain s where s: "db_get_session w sid = Some s" "status s = StatusError"
    by (auto simp add: in_error_def split: option.splits)
  then have "status s \<noteq> StatusRunning" by simp
  with s(1) have "evaluateSession e sid reason w = (Inr (), w)"
    by (rule tick_not_running_is_noop_aux)
  with True assms show ?thesis by simp
next
  case False
  have "sessions_kept {x} w (snd (evaluateSession e x reason w))"
    by (rule kept_evaluateSession [of e x reason w "fst (evaluateSession e x reason w)"]) simp
  with assms False show ?thesis by (auto intro: in_error_kept)
qed

lemma in_error_tickSessions_loop:
  "in_error w sid m \<Longrightarrow> in_error (snd (tickSessions_loop e ids w)) sid m"
proof (induction ids arbitrary: w)
  case Nil
  then show ?case by simp
next
  case (Cons x ids)
  from in_error_evaluateSession [OF Cons.prems, of e x None]
  show ?case
    by (cases "evaluateSession e x None w") (auto split: sum.splits intro: Cons.IH)
qed

lemma in_error_closePositions_loop:
  "in_error w sid m \<Longrightarrow> in_error (snd (closePositions_loop e session reason ps w)) sid m"
proof (induction ps arbitrary: w)
  case Nil
  then show ?case by simp
next
  case (Cons p ps)
  obtain x w1 where c: "closePositionWithBroker e session p
      (Some (case lastPrice session of None \<Rightarrow> entryPrice p | Some v \<Rightarrow> v))
      (case reason of None \<Rightarrow> ''manual'' | Some r \<Rightarrow> r) w = (x, w1)"
    by (cases "closePositionWithBroker e session p
      (Some (case lastPrice session of None \<Rightarrow> entryPrice p | Some v \<Rightarrow> v))
      (case reason of None \<Rightarrow> ''manual'' | Some r \<Rightarrow> r) w")
  from in_error_kept [OF Cons.prems kept_closePositionWithBroker [OF c, of "{}"]]
  have "in_error w1 sid m" by simp
  with c show ?case
    by (cases x) (auto intro: Cons.IH)
qed

lemma db_get_session_patch:
  assumes "db_get_session w sid = Some s" and "\<And>s. session_id (f s) = session_id s"
  shows "db_get_session (db_patch_session sid f w) sid = Some (f s)"
proof -
  have "find (\<lambda>s. session_id s = sid) xs = Some s \<Longrightarrow>
        find (\<lambda>s. session_id s = sid) (map (\<lambda>s. if session_id s = sid then f s else s) xs)
        = Some (f s)" for xs
    by (induction xs) (auto simp add: assms(2) split: if_splits)
  with assms(1) show ?thesis
    by (simp add: db_get_session_def db_patch_session_def)
qed

lemma insert_log_sessions:
  "traderSessions (db_insert_log l w) = traderSessions w"
  "traderSessions (schedule j w) = traderSessions w"
  by (simp_all add: db_insert_log_def schedule_def)

lemma find_append_Some: "find P xs = Some x \<Longrightarrow> find P (xs @ ys) = Some x"
  by (induction xs) (auto split: if_splits)

lemma in_error_createSession:
  assumes "in_error w sid m"
  shows "in_error (snd (createSession e args w)) sid m"
proof (cases "validateConfig args")
  case (Inl err)
  with assms show ?thesis by (simp add: createSession_def)
next
  case (Inr u)
  from assms obtain s where "find (\<lambda>s. session_id s = sid) (traderSessions w) = Some s"
    by (auto simp add: in_error_def db_get_session_def split: option.splits)
  then have "find (\<lambda>s. session_id s = sid) (traderSessions w @ ys)
             = find (\<lambda>s. session_id s = sid) (traderSessions w)" for ys
    by (simp add: find_append_Some)
  with assms Inr show ?thesis
    by (simp add: createSession_def in_error_def db_get_session_def insert_log_sessions)
qed

lemma in_error_updateSession:
  assumes "in_error w sid m"
  shows "in_error (snd (updateSession e x config w)) sid m"
proof (cases "validateConfig config")
  case (Inl err)
  with assms show ?thesis by (simp add: updateSession_def)
next
  case (Inr u)
  show ?thesis
  proof (cases "db_get_session w x")
    case None
    with assms Inr show ?thesis by (simp add: updateSession_def)
  next
    case (Some s0)
    let ?f = "\<lambda>s. s\<lparr>name := name config, instrument := instrument config,
                             granularity := granularity config,
                             shortWindow := shortWindow config, longWindow := longWindow config,
                             tradeUnits := tradeUnits config,
                             takeProfitMultiplier := takeProfitMultiplier config,
                             stopLossMultiplier := stopLossMultiplier config,
                             neutralThreshold := neutralThreshold config,
                             updatedAt := now e\<rparr>"
    have 1: "sessions_kept {} w (db_patch_session x ?f w)"
      by (rule kept_patch) simp_all
    have 2: "sessions_kept {} (db_patch_session x ?f w) (db_insert_log l (db_patch_session x ?f w))"
      for l
      by (rule kept_same_sessions) (simp add: insert_log_sessions)
    have "sessions_kept {} w (snd (updateSession e x config w))"
      using kept_trans [OF 1 2] Inr Some by (simp add: updateSession_def)
    from in_error_kept [OF assms this] show ?thesis by simp
  qed
qed

lemma kept_startSession: "sessions_kept {x} w (snd (startSession e x w))"
proof (cases "db_get_session w x")
  case None
  then show ?thesis by (simp add: startSession_def requireSession_def kept_refl)
next
  case (Some s0)
  let ?f = "\<lambda>s. s\<lparr>status := StatusRunning, updatedAt := now e, errorMessage := None\<rparr>"
  have 1: "sessions_kept {x} w (db_patch_session x ?f w)"
    by (rule kept_patch) simp_all
  have 2: "sessions_kept {x} (db_patch_session x ?f w)
             (schedule j (db_insert_log l (db_patch_session x ?f w)))" for j l
    by (rule kept_same_sessions) (simp add: insert_log_sessions)
  show ?thesis
    using kept_trans [OF 1 2] Some
    by (simp add: startSession_def requireSession_def kept_refl)
qed

lemma kept_stopSession: "sessions_kept {x} w (snd (stopSession e x c w))"
proof (cases "db_get_session w x")
  case None
  then show ?thesis by (simp add: stopSession_def requireSession_def kept_refl)
next
  case (Some s0)
  let ?f = "\<lambda>s. s\<lparr>status := StatusStopped, updatedAt := now e, errorMessage := None\<rparr>"
  have 1: "sessions_kept {x} w (db_patch_session x ?f w)"
    by (rule kept_patch) simp_all
  have 2: "sessions_kept {x} (db_patch_session x ?f w) (db_insert_log l (db_patch_session x ?f w))"
    for l
    by (rule kept_same_sessions) (simp add: insert_log_sessions)
  have 3: "sessions_kept {x} (db_patch_session x ?f w)
             (schedule j (db_insert_log l (db_patch_session x ?f w)))" for j l
    by (rule kept_same_sessions) (simp add: insert_log_sessions)
  show ?thesis
    using kept_trans [OF 1 2] kept_trans [OF 1 3] Some
    by (simp add: stopSession_def requireSession_def Let_def)
qed

lemma in_error_startSession:
  assumes "in_error w sid m" and "x \<noteq> sid"
  shows "in_error (snd (startSession e x w)) sid m"
  using in_error_kept [OF assms(1) kept_startSession [of x w e]] assms(2) by simp

lemma in_error_stopSession:
  assumes "in_error w sid m" and "x \<noteq> sid"
  shows "in_error (snd (stopSession e x c w)) sid m"
  using in_error_kept [OF assms(1) kept_stopSession [of x w e c]] assms(2) by simp

lemma in_error_requestImmediateTick:
  assumes "in_error w sid m"
  shows "in_error (snd (requestImmediateTick e x w)) sid m"
proof -
  have "sessions_kept {} w (snd (requestImmediateTick e x w))"
    by (cases "db_get_session w x")
       (simp_all add: requestImmediateTick_def requireSession_def kept_refl kept_same_sessions
         insert_log_sessions)
  from in_error_kept [OF assms this] show ?thesis by simp
qed

lemma in_error_closeSessionPositions:
  assumes "in_error w sid m"
  shows "in_error (snd (closeSessionPositions e x reason w)) sid m"
  using assms
  by (cases "getSessionState w x")
     (auto simp add: closeSessionPositions_def intro: in_error_closePositions_loop)

lemma in_error_perform:
  assumes "in_error w sid m" and "op \<noteq> StartSession sid" and "\<And>c. op \<noteq> StopSession sid c"
  shows "in_error (snd (perform e op w)) sid m"
proof (cases op)
  case (CreateSession args)
  from in_error_createSession [OF assms(1), of e args] show ?thesis
    unfolding CreateSession by (cases "createSession e args w") (auto split: sum.splits)
next
  case (UpdateSession x config)
  with assms(1) show ?thesis by (simp add: in_error_updateSession)
next
  case (StartSession x)
  with assms(1,2) show ?thesis by (simp add: in_error_startSession)
next
  case (StopSession x c)
  with assms(3) [of c] have "x \<noteq> sid" by auto
  with assms(1) StopSession show ?thesis by (simp add: in_error_stopSession)
next
  case (RequestImmediateTick x)
  with assms(1) show ?thesis by (simp add: in_error_requestImmediateTick)
next
  case (EvaluateSession x reason)
  with assms(1) show ?thesis by (simp add: in_error_evaluateSession)
next
  case (CloseSessionPositions x reason)
  with assms(1) show ?thesis by (simp add: in_error_closeSessionPositions)
next
  case TickActiveSessions
  with assms(1) show ?thesis by (simp add: tickActiveSessions_def in_error_tickSessions_loop)
qed

text \<open>
  C9, as the code has it. While a session is in status error with a message recorded,
  every engine operation other than a start or a stop of that session leaves it in
  status error with the same message; a start of the session and a stop of the session
  both remove the message.
\<close>

theorem error_message_kept_until_start_or_stop:
  assumes "db_get_session w sid = Some s"
    and "status s = StatusError"
    and "errorMessage s = Some m"
  shows "(op \<noteq> StartSession sid \<and> (\<forall>c. op \<noteq> StopSession sid c)
            \<longrightarrow> (\<exists>s'. db_get_session (snd (perform e op w)) sid = Some s'
                    \<and> status s' = StatusError \<and> errorMessage s' = Some m))
         \<and> (\<exists>s'. db_get_session (snd (perform e (StartSession sid) w)) sid = Some s'
                \<and> status s' = StatusRunning \<and> errorMessage s' = None)
         \<and> (\<exists>s'. db_get_session (snd (perform e (StopSession sid c) w)) sid = Some s'
                \<and> status s' = StatusStopped \<and> errorMessage s' = None)"
proof -
  have ie: "in_error w sid m" using assms by (simp add: in_error_def)
  have a: "\<exists>s'. db_get_session (snd (perform e op w)) sid = Some s'
             \<and> status s' = StatusError \<and> errorMessage s' = Some m"
    if "op \<noteq> StartSession sid" "\<forall>c. op \<noteq> StopSession sid c"
    using in_error_perform [OF ie that(1), of e] that(2)
    by (auto simp add: in_error_def split: option.splits)
  have b: "db_get_session (snd (perform e (StartSession sid) w)) sid
           = Some (s\<lparr>status := StatusRunning, updatedAt := now e, errorMessage := None\<rparr>)"
    using assms(1,2) db_get_session_patch [OF assms(1),
        of "\<lambda>s. s\<lparr>status := StatusRunning, updatedAt := now e, errorMessage := None\<rparr>"]
    by (simp add: startSession_def requireSession_def db_get_session_def insert_log_sessions)
  have c: "db_get_session (snd (perform e (StopSession sid c) w)) sid
           = Some (s\<lparr>status := StatusStopped, updatedAt := now e, errorMessage := None\<rparr>)"
    using assms(1) db_get_session_patch [OF assms(1),
        of "\<lambda>s. s\<lparr>status := StatusStopped, updatedAt := now e, errorMessage := None\<rparr>"]
    by (simp add: stopSession_def requireSession_def db_get_session_def insert_log_sessions
        Let_def)
  from a b c show ?thesis by simp
qed

theorem error_message_kept_until_start_or_stop_witness:
  "db_get_session (example_world example_failed_session []) 0 = Some example_failed_session
   \<and> status example_failed_session = StatusError
   \<and> errorMessage example_failed_session = Some ''boom''
   \<and> EvaluateSession 0 None \<noteq> StartSession 0
   \<and> (\<forall>c. EvaluateSession 0 None \<noteq> StopSession 0 c)
   \<and> (\<exists>s'. db_get_session
               (snd (perform example_paper_env (EvaluateSession 0 None)
                       (example_world example_failed_session []))) 0 = Some s'
          \<and> status s' = StatusError \<and> errorMessage s' = Some ''boom'')
   \<and> (\<exists>s'. db_get_session
               (snd (perform example_paper_env (StartSession 0)
                       (example_world example_failed_session []))) 0 = Some s'
          \<and> status s' = StatusRunning \<and> errorMessage s' = None)
   \<and> (\<exists>s'. db_get_session
               (snd (perform example_paper_env (StopSession 0 None)
                       (example_world example_failed_session []))) 0 = Some s'
          \<and> status s' = StatusStopped \<and> errorMessage s' = None)"
proof -
  have a: "db_get_session (example_world example_failed_session []) 0
           = Some example_failed_session"
    by (simp add: example_failed_session_def example_defs store_defs)
  have b: "status example_failed_session = StatusError"
    "errorMessage example_failed_session = Some ''boom''"
    by (simp_all add: example_failed_session_def)
  from error_message_kept_until_start_or_stop
    [OF a b, of "EvaluateSession 0 None" example_paper_env None] a b
  show ?thesis by simp
qed

text \<open>
  C9 as stated fails: stopping a session that is in status error with a message recorded
  is not a start, and it removes the message.
\<close>

theorem stop_clears_error_message:
  "db_get_session (example_world example_failed_session []) 0 = Some example_failed_session
   \<and> status example_failed_session = StatusError
   \<and> errorMessage example_failed_session = Some ''boom''
   \<and> StopSession 0 None \<noteq> StartSession 0
   \<and> fst (perform example_paper_env (StopSession 0 None)
             (example_world example_failed_session [])) = Inr ()
   \<and> map_option errorMessage
        (db_get_session
           (snd (perform example_paper_env (StopSession 0 None)
                   (example_world example_failed_session []))) 0)
      = Some None"
  by (simp add: example_failed_session_def example_defs store_defs stopSession_def
      requireSession_def Let_def)

subsection \<open>The opening rule\<close>

lemma signal_kept_refl: "signals_kept w w"
  by (simp add: signals_kept_def list_all2_same)

lemma signal_kept_trans: "signals_kept w w1 \<Longrightarrow> signals_kept w1 w2 \<Longrightarrow> signals_kept w w2"
  by (auto simp add: signals_kept_def list_all2_conv_all_nth)

lemma signal_kept_same_sessions: "traderSessions w' = traderSessions w \<Longrightarrow> signals_kept w w'"
  by (simp add: signals_kept_def list_all2_same)

lemma signal_kept_same_tables: "same_tables w w' \<Longrightarrow> signals_kept w w'"
  by (simp add: same_tables_def signal_kept_same_sessions)

lemma signal_kept_patch:
  assumes "\<And>s. session_id (f s) = session_id s" and "\<And>s. lastSignal (f s) = lastSignal s"
  shows "signals_kept w (db_patch_session x f w)"
  using assms
  by (auto simp add: signals_kept_def db_patch_session_def list_all2_map2 list_all2_same)

lemma signal_kept_get:
  assumes "signals_kept w w'" and "db_get_session w x = Some s"
  shows "\<exists>s'. db_get_session w' x = Some s' \<and> lastSignal s' = lastSignal s"
proof -
  have "list_all2 (\<lambda>s s'. session_id s' = session_id s \<and> lastSignal s' = lastSignal s) xs ys
     \<Longrightarrow> find (\<lambda>s. session_id s = x) xs = Some s
     \<Longrightarrow> \<exists>s'. find (\<lambda>s. session_id s = x) ys = Some s' \<and> lastSignal s' = lastSignal s"
    for xs ys
    by (induction xs ys rule: list_all2_induct) (auto split: if_splits)
  with assms show ?thesis by (simp add: signals_kept_def db_get_session_def)
qed

lemma signal_kept_logEvent: "signals_kept w (logEvent e sid lvl msg det w)"
  by (simp add: signal_kept_same_sessions logEvent_fields)

lemma signal_kept_setStatus: "signals_kept w (setStatus e sid st m w)"
  unfolding setStatus_def
  by (rule signal_kept_patch) (simp_all add: Let_def split: option.split)

lemma signal_kept_closePositionRecord: "signals_kept w (closePositionRecord e pid a b reason w)"
proof (cases "db_get_position w pid")
  case None
  then show ?thesis by (simp add: closePositionRecord_def signal_kept_refl)
next
  case (Some position)
  have "signals_kept w (db_patch_position pid f w)" for f
    by (simp add: signal_kept_same_sessions db_patch_position_def)
  moreover have "signals_kept w1 (db_patch_session x (\<lambda>s. s\<lparr>updatedAt := now e\<rparr>) w1)" for x w1
    by (rule signal_kept_patch) simp_all
  ultimately show ?thesis
    using Some by (auto simp add: closePositionRecord_def intro: signal_kept_trans)
qed

lemma signal_kept_recordClosedPosition:
  "signals_kept w (recordClosedPosition e session position a b reason w)"
  unfolding recordClosedPosition_def
  by (rule signal_kept_trans [OF signal_kept_closePositionRecord signal_kept_logEvent])

lemma signal_kept_closePositionWithBroker:
  assumes "closePositionWithBroker e session position mp reason w = (r, w')"
  shows "signals_kept w w'"
proof (cases "truthy (oandaTradeId position) \<and> isOandaConfigured e")
  case False
  with assms have "w' = recordClosedPosition e session position mp None reason w"
    by (auto simp add: closePositionWithBroker_def)
  then show ?thesis by (simp add: signal_kept_recordClosedPosition)
next
  case True
  obtain x w1 where o: "closeTrade e (the (oandaTradeId position)) w = (x, w1)"
    by (cases "closeTrade e (the (oandaTradeId position)) w")
  note k = signal_kept_same_tables [OF closeTrade_tables [OF o]]
  from assms True o
  have "w' = w1 \<or> (\<exists>a b. w' = recordClosedPosition e session position a b reason w1)"
    by (auto simp add: closePositionWithBroker_def split: sum.splits option.splits)
  with k show ?thesis
    by (auto intro: signal_kept_trans signal_kept_recordClosedPosition)
qed

lemma signal_kept_recordOpenedPosition:
  assumes "recordOpenedPosition e session dir mp aep tid w = (r, w')"
  shows "signals_kept w w'"
proof (cases aep)
  case None
  with assms show ?thesis by (simp add: recordOpenedPosition_None signal_kept_refl)
next
  case (Some ep)
  have 1: "signals_kept w (db_insert_position p w)" for p
    by (simp add: signal_kept_same_sessions db_insert_position_def)
  have 2: "signals_kept w1 (db_patch_session x (\<lambda>s. s\<lparr>updatedAt := now e\<rparr>) w1)" for x w1
    by (rule signal_kept_patch) simp_all
  from assms Some show ?thesis
    by (auto simp add: recordOpenedPosition_def createPositionRecord_def
        intro!: signal_kept_trans [OF 1 signal_kept_trans [OF 2 signal_kept_logEvent]])
qed

lemma signal_kept_openPositionWithBroker:
  assumes "openPositionWithBroker e session dir mp w = (r, w')"
  shows "signals_kept w w'"
proof (cases "isOandaConfigured e")
  case False
  with assms show ?thesis
    by (simp add: openPositionWithBroker_paper signal_kept_recordOpenedPosition)
next
  case True
  obtain x w1 where o: "placeMarketOrder e (instrument session) (openUnits session dir)
      (openTakeProfit session dir mp) (openStopLoss session dir mp) w = (x, w1)"
    by (cases "placeMarketOrder e (instrument session) (openUnits session dir)
      (openTakeProfit session dir mp) (openStopLoss session dir mp) w")
  note k = signal_kept_same_tables [OF placeMarketOrder_tables [OF o]]
  from assms True o
  have "w' = w1 \<or> (\<exists>aep tid. recordOpenedPosition e session dir mp aep tid w1 = (r, w'))"
    by (auto simp add: openPositionWithBroker_def split: sum.splits option.splits)
  with k show ?thesis
    by (auto intro: signal_kept_trans signal_kept_recordOpenedPosition)
qed

lemma signal_kept_reconcilePositions:
  "signals_kept w (reconcilePositions e session latestPrice liveIds ps w)"
proof (induction ps arbitrary: w)
  case Nil
  then show ?case by (simp add: signal_kept_refl)
next
  case (Cons p ps)
  show ?case
    using Cons.IH
    by (auto intro: signal_kept_trans [OF signal_kept_closePositionRecord
          signal_kept_trans [OF signal_kept_logEvent]])
qed

lemma signal_kept_evaluateSession_reconcile:
  assumes "evaluateSession_reconcile e session latestPrice ops w = (ops', w')"
  shows "signals_kept w w'"
proof (cases "ops \<noteq> [] \<and> isOandaConfigured e")
  case False
  with assms show ?thesis by (auto simp add: evaluateSession_reconcile_def signal_kept_refl)
next
  case True
  obtain x w1 where o: "getOpenTrades e w = (x, w1)" by (cases "getOpenTrades e w")
  note k = signal_kept_same_tables [OF getOpenTrades_tables [OF o]]
  from assms True o show ?thesis
    by (cases x)
       (auto simp add: evaluateSession_reconcile_def Let_def
         intro: signal_kept_trans [OF k signal_kept_logEvent]
           signal_kept_trans [OF k signal_kept_reconcilePositions])
qed

lemma signal_kept_evaluateSession_close:
  assumes "evaluateSession_close e session sig latestPrice ops w = (r, w')"
  shows "signals_kept w w'"
proof (cases ops)
  case Nil
  with assms show ?thesis by (simp add: evaluateSession_close_def signal_kept_refl)
next
  case (Cons p ps)
  show ?thesis
  proof (cases "sig = Neutral \<or> sig \<noteq> Sig (direction p)")
    case False
    with assms Cons show ?thesis by (auto simp add: evaluateSession_close_def signal_kept_refl)
  next
    case True
    obtain x w1 where o: "closePositionWithBroker e session p latestPrice
        (if sig = Neutral then ''neutral-signal'' else ''signal-flip'')
        (logEvent e (session_id session) Info ''Signal requires closing current position''
           (Some [(''signal'', DSignal sig), (''activeDirection'', DDirection (direction p))]) w)
        = (x, w1)"
      by (cases "closePositionWithBroker e session p latestPrice
        (if sig = Neutral then ''neutral-signal'' else ''signal-flip'')
        (logEvent e (session_id session) Info ''Signal requires closing current position''
           (Some [(''signal'', DSignal sig), (''activeDirection'', DDirection (direction p))]) w)")
    from assms Cons True o have "w' = w1"
      by (cases x) (auto simp add: evaluateSession_close_def)
    with signal_kept_trans [OF signal_kept_logEvent signal_kept_closePositionWithBroker [OF o]]
    show ?thesis by simp
  qed
qed

lemma signal_kept_evaluateSession_open:
  assumes "evaluateSession_open e session sig prev latestPrice ops w = (r, w')"
  shows "signals_kept w w'"
proof (cases "ops = [] \<and> sig \<noteq> Neutral \<and> sig \<noteq> prev")
  case False
  with assms show ?thesis by (auto simp add: evaluateSession_open_def signal_kept_refl)
next
  case True
  then obtain dir where d: "sig = Sig dir" by (cases sig) auto
  from assms True d
  have "openPositionWithBroker e session dir latestPrice
          (logEvent e (session_id session) Info ''Attempting to open new position''
             (Some [(''signal'', DSignal sig)]) w) = (r, w')"
    by (simp add: evaluateSession_open_def)
  from signal_kept_trans [OF signal_kept_logEvent signal_kept_openPositionWithBroker [OF this]]
  show ?thesis .
qed

text \<open>The analytics patch of a tick records the signal the tick computed.\<close>

lemma updateAnalytics_records_signal:
  assumes "db_get_session w sid = Some s"
  shows "\<exists>s'. db_get_session (updateAnalytics e sid a b c (Some sg) t m w) sid = Some s'
           \<and> lastSignal s' = Some sg"
  unfolding updateAnalytics_def
  by (subst db_get_session_patch [OF assms]) (simp_all add: Let_def split: option.split)

text \<open>
  A tick of a running session that obtains enough closing prices leaves the signal it
  computed from them on the session record, whatever else it does afterwards.
\<close>

lemma tick_records_signal:
  assumes "db_get_session w sid = Some session"
    and "status session = StatusRunning"
    and "fetchCandles e (instrument session) (granularity session)
           (max (longWindow session * 2) (longWindow session + 5)) w = (Inr cs, w1)"
    and "longWindow session \<le> int (length (closesOf e cs))"
  shows "\<exists>s'. db_get_session (snd (evaluateSession e sid reason w)) sid = Some s'
           \<and> lastSignal s' = Some (signalOf e session cs)"
proof -
  have id: "session_id session = sid" using assms(1) by (rule db_get_session_id)
  obtain x w5 where pr:
    "evaluateSession_prepare e session (openPositionsOf w sid) reason w = (x, w5)"
    by (cases "evaluateSession_prepare e session (openPositionsOf w sid) reason w")
  obtain r w6 where tr: "evaluateSession_try e session (openPositionsOf w sid) reason w = (r, w6)"
    by (cases "evaluateSession_try e session (openPositionsOf w sid) reason w")
  from pr obtain det ops1 w4 y where
    rc: "evaluateSession_reconcile e session (last_elem (closesOf e cs)) (openPositionsOf w sid)
         (logEvent e (session_id session) Analysis ''Tick processed'' det
            (updateAnalytics e (session_id session)
               (movingAverage (closesOf e cs) (shortWindow session))
               (movingAverage (closesOf e cs) (longWindow session))
               (last_elem (closesOf e cs)) (Some (signalOf e session cs)) (Some (now e)) None
               w1))
         = (ops1, w4)"
    and cl: "evaluateSession_close e session (signalOf e session cs) (last_elem (closesOf e cs))
         ops1 w4 = (y, w5)"
    using assms(3,4) by (cases rule: evaluateSession_prepare_cases) auto
  let ?w2 = "updateAnalytics e (session_id session)
               (movingAverage (closesOf e cs) (shortWindow session))
               (movingAverage (closesOf e cs) (longWindow session))
               (last_elem (closesOf e cs)) (Some (signalOf e session cs)) (Some (now e)) None
               w1"
  have "db_get_session w1 sid = Some session"
    using fetchCandles_tables [OF assms(3)] assms(1)
    by (simp add: same_tables_def db_get_session_def)
  from updateAnalytics_records_signal [OF this]
  have "\<exists>s2. db_get_session ?w2 sid = Some s2 \<and> lastSignal s2 = Some (signalOf e session cs)"
    unfolding id by blast
  then obtain s2 where g2: "db_get_session ?w2 sid = Some s2"
    "lastSignal s2 = Some (signalOf e session cs)"
    by blast
  have k5: "signals_kept ?w2 w5"
    by (rule signal_kept_trans [OF signal_kept_logEvent
          signal_kept_trans [OF signal_kept_evaluateSession_reconcile [OF rc]
            signal_kept_evaluateSession_close [OF cl]]])
  have k6: "signals_kept w5 w6"
  proof (cases x)
    case (Inl err)
    with tr pr have "w6 = w5" by (simp add: evaluateSession_try_def)
    then show ?thesis by (simp add: signal_kept_refl)
  next
    case (Inr d)
    show ?thesis
    proof (cases d)
      case None
      with tr pr Inr have "w6 = w5" by (simp add: evaluateSession_try_def)
      then show ?thesis by (simp add: signal_kept_refl)
    next
      case (Some q)
      obtain sig prev price ops where q: "q = (sig, prev, price, ops)" by (cases q)
      from tr pr Inr Some q
      have "evaluateSession_open e session sig prev price ops w5 = (r, w6)"
        by (simp add: evaluateSession_try_def)
      then show ?thesis by (rule signal_kept_evaluateSession_open)
    qed
  qed
  have k7: "signals_kept w6 (snd (evaluateSession e sid reason w))"
    using assms(1,2) tr
    by (cases r)
       (auto simp add: evaluateSession_def getSessionState_def signal_kept_refl
         intro: signal_kept_trans [OF signal_kept_logEvent signal_kept_setStatus])
  from signal_kept_get [OF signal_kept_trans [OF k5 signal_kept_trans [OF k6 k7]] g2(1)] g2(2)
  show ?thesis by auto
qed

text \<open>
  C2. For a tick of a stored session:

  \<^item> if the tick adds a position record, then it reached the opening step with an empty
    local list of open positions, which is also what the store held for the session at
    that moment; the signal it had computed from the fetched candles was a direction,
    different from the signal the session had recorded before the tick; and after the
    tick the new record, in that direction, is the only open position of the session;

  \<^item> if the session is running and the tick obtains enough closing prices, then the
    signal it computes from them is the signal recorded on the session after the tick;
    and if the next tick, run in any environment on the world this tick left, adds a
    position record, then the signal the next tick computed is a direction different
    from the signal of this tick, and the new record, in that direction, is the only
    open position of the session.
\<close>

theorem opens_only_on_fresh_signal:
  assumes "db_get_session w sid = Some session"
  shows
    "(length (traderPositions w)
        < length (traderPositions (snd (evaluateSession e sid reason w))) \<longrightarrow>
      (\<exists>dir prev price w5 cs w1 pos.
         evaluateSession_prepare e session (openPositionsOf w sid) reason w
           = (Inr (Some (Sig dir, prev, price, [])), w5)
         \<and> fetchCandles e (instrument session) (granularity session)
              (max (longWindow session * 2) (longWindow session + 5)) w = (Inr cs, w1)
         \<and> Sig dir = signalOf e session cs
         \<and> prev = (case lastSignal session of None \<Rightarrow> Neutral | Some s \<Rightarrow> s)
         \<and> Sig dir \<noteq> prev
         \<and> openPositionsOf w5 sid = []
         \<and> traderPositions (snd (evaluateSession e sid reason w)) = traderPositions w5 @ [pos]
         \<and> direction pos = dir
         \<and> openPositionsOf (snd (evaluateSession e sid reason w)) sid = [pos]))
     \<and> (status session = StatusRunning
        \<and> fetchCandles e (instrument session) (granularity session)
             (max (longWindow session * 2) (longWindow session + 5)) w = (Inr cs0, w0)
        \<and> longWindow session \<le> int (length (closesOf e cs0)) \<longrightarrow>
        (\<exists>s'. db_get_session (snd (evaluateSession e sid reason w)) sid = Some s'
           \<and> lastSignal s' = Some (signalOf e session cs0)
           \<and> (length (traderPositions (snd (evaluateSession e sid reason w)))
                 < length (traderPositions
                     (snd (evaluateSession e' sid reason' (snd (evaluateSession e sid reason w)))))
               \<longrightarrow>
               (\<exists>dir cs' w1' pos.
                  fetchCandles e' (instrument s') (granularity s')
                    (max (longWindow s' * 2) (longWindow s' + 5))
                    (snd (evaluateSession e sid reason w)) = (Inr cs', w1')
                  \<and> signalOf e' s' cs' = Sig dir
                  \<and> Sig dir \<noteq> signalOf e session cs0
                  \<and> direction pos = dir
                  \<and> openPositionsOf
                      (snd (evaluateSession e' sid reason' (snd (evaluateSession e sid reason w))))
                      sid = [pos]))))"
proof (intro conjI impI)
  assume "length (traderPositions w)
        < length (traderPositions (snd (evaluateSession e sid reason w)))"
  with assms show "\<exists>dir prev price w5 cs w1 pos.
         evaluateSession_prepare e session (openPositionsOf w sid) reason w
           = (Inr (Some (Sig dir, prev, price, [])), w5)
         \<and> fetchCandles e (instrument session) (granularity session)
              (max (longWindow session * 2) (longWindow session + 5)) w = (Inr cs, w1)
         \<and> Sig dir = signalOf e session cs
         \<and> prev = (case lastSignal session of None \<Rightarrow> Neutral | Some s \<Rightarrow> s)
         \<and> Sig dir \<noteq> prev
         \<and> openPositionsOf w5 sid = []
         \<and> traderPositions (snd (evaluateSession e sid reason w)) = traderPositions w5 @ [pos]
         \<and> direction pos = dir
         \<and> openPositionsOf (snd (evaluateSession e sid reason w)) sid = [pos]"
    by (rule evaluateSession_opening)
next
  let ?W = "snd (evaluateSession e sid reason w)"
  assume "status session = StatusRunning
        \<and> fetchCandles e (instrument session) (granularity session)
             (max (longWindow session * 2) (longWindow session + 5)) w = (Inr cs0, w0)
        \<and> longWindow session \<le> int (length (closesOf e cs0))"
  then have "\<exists>s'. db_get_session ?W sid = Some s'
           \<and> lastSignal s' = Some (signalOf e session cs0)"
    using tick_records_signal [OF assms, of e cs0 w0 reason] by blast
  then obtain s' where s: "db_get_session ?W sid = Some s'"
    "lastSignal s' = Some (signalOf e session cs0)"
    by blast
  have "\<exists>dir cs' w1' pos.
          fetchCandles e' (instrument s') (granularity s')
            (max (longWindow s' * 2) (longWindow s' + 5)) ?W = (Inr cs', w1')
          \<and> signalOf e' s' cs' = Sig dir
          \<and> Sig dir \<noteq> signalOf e session cs0
          \<and> direction pos = dir
          \<and> openPositionsOf (snd (evaluateSession e' sid reason' ?W)) sid = [pos]"
    if "length (traderPositions ?W)
          < length (traderPositions (snd (evaluateSession e' sid reason' ?W)))"
    using evaluateSession_opening [OF s(1) that] s(2) by auto
  with s show "\<exists>s'. db_get_session ?W sid = Some s'
           \<and> lastSignal s' = Some (signalOf e session cs0)
           \<and> (length (traderPositions ?W)
                 < length (traderPositions (snd (evaluateSession e' sid reason' ?W)))
               \<longrightarrow>
               (\<exists>dir cs' w1' pos.
                  fetchCandles e' (instrument s') (granularity s')
                    (max (longWindow s' * 2) (longWindow s' + 5)) ?W = (Inr cs', w1')
                  \<and> signalOf e' s' cs' = Sig dir
                  \<and> Sig dir \<noteq> signalOf e session cs0
                  \<and> direction pos = dir
                  \<and> openPositionsOf (snd (evaluateSession e' sid reason' ?W)) sid = [pos]))"
    by blast
qed

theorem opens_only_on_fresh_signal_witness:
  "db_get_session (example_world example_session []) 0 = Some example_session
   \<and> status example_session = StatusRunning
   \<and> fst (fetchCandles example_falling_env (instrument example_session)
             (granularity example_session)
             (max (longWindow example_session * 2) (longWindow example_session + 5))
             (example_world example_session []))
       = Inr [example_candle True ''3'', example_candle True ''1'']
   \<and> longWindow example_session
       \<le> int (length (closesOf example_falling_env
                         [example_candle True ''3'', example_candle True ''1'']))
   \<and> signalOf example_falling_env example_session
         [example_candle True ''3'', example_candle True ''1''] = Sig Short
   \<and> length (traderPositions (example_world example_session []))
       < length (traderPositions
           (snd (evaluateSession example_falling_env 0 None (example_world example_session []))))
   \<and> length (traderPositions
         (snd (evaluateSession example_falling_env 0 None (example_world example_session []))))
       < length (traderPositions
           (snd (evaluateSession example_paper_env 0 None
              (snd (evaluateSession example_falling_env 0 None
                      (example_world example_session []))))))
   \<and> (\<exists>pos. direction pos = Short
          \<and> openPositionsOf
              (snd (evaluateSession example_falling_env 0 None (example_world example_session [])))
              0 = [pos])
   \<and> (\<exists>s'. db_get_session
              (snd (evaluateSession example_falling_env 0 None (example_world example_session [])))
              0 = Some s'
          \<and> lastSignal s' = Some (Sig Short))
   \<and> (\<exists>pos. direction pos = Long
          \<and> openPositionsOf
              (snd (evaluateSession example_paper_env 0 None
                 (snd (evaluateSession example_falling_env 0 None
                         (example_world example_session [])))))
              0 = [pos])"
proof -
  let ?w = "example_world example_session []"
  let ?cs = "[example_candle True ''3'', example_candle True ''1'']"
  let ?f = "fetchCandles example_falling_env (instrument example_session)
             (granularity example_session)
             (max (longWindow example_session * 2) (longWindow example_session + 5)) ?w"
  let ?W = "snd (evaluateSession example_falling_env 0 None ?w)"
  let ?W' = "snd (evaluateSession example_paper_env 0 None ?W)"
  have a: "db_get_session ?w 0 = Some example_session"
    by (simp add: example_defs store_defs)
  have b: "status example_session = StatusRunning"
    by (simp add: example_defs)
  have c: "fst ?f = Inr ?cs"
    by (simp add: example_falling_env_def example_defs broker_defs Let_def)
  have c': "?f = (Inr ?cs, snd ?f)"
    using c by (simp add: prod_eq_iff)
  have d: "longWindow example_session \<le> int (length (closesOf example_falling_env ?cs))"
    by (simp add: closesOf_def example_defs)
  have f: "signalOf example_falling_env example_session ?cs = Sig Short"
    by (simp add: signalOf_def closesOf_def example_falling_env_def example_defs signal_defs
        toNumber_def num_sub_def num_gt_def round_simps Let_def)
  have g: "length (traderPositions ?w) < length (traderPositions ?W)"
    by (simp add: example_falling_env_def example_defs broker_defs store_defs signal_defs
        evaluator_defs executor_defs round_simps Let_def)
  have h: "length (traderPositions ?W) < length (traderPositions ?W')"
    by (simp add: example_falling_env_def example_paper_env_def example_defs broker_defs
        store_defs signal_defs evaluator_defs executor_defs round_simps Let_def)
  note t = opens_only_on_fresh_signal [OF a, of example_falling_env None ?cs "snd ?f"
      example_paper_env None]
  from t [THEN conjunct1, rule_format, OF g] c' f
  have 1: "\<exists>pos. direction pos = Short \<and> openPositionsOf ?W 0 = [pos]"
    by auto
  from t [THEN conjunct2, rule_format, OF conjI [OF b conjI [OF c' d]]] f
  obtain s' where s: "db_get_session ?W 0 = Some s'" "lastSignal s' = Some (Sig Short)"
    and n: "length (traderPositions ?W) < length (traderPositions ?W') \<longrightarrow>
      (\<exists>dir pos. Sig dir \<noteq> Sig Short \<and> direction pos = dir
         \<and> openPositionsOf ?W' 0 = [pos])"
    by auto
  from n h obtain dir pos where p: "dir \<noteq> Short" "direction pos = dir"
    "openPositionsOf ?W' 0 = [pos]"
    by auto
  from p(1) have "dir = Long" by (cases dir) simp_all
  with p have 2: "\<exists>pos. direction pos = Long \<and> openPositionsOf ?W' 0 = [pos]"
    by auto
  from a b c d f g h 1 s 2 show ?thesis by blast
qed

end
